theory Spec2Isabelle
  imports Main "HOL-Library.Monad_Syntax" "HOL-Library.Sublist"
begin

section \<open>Python values\<close>

text \<open>
  The booking handlers of \<^verbatim>\<open>app.py\<close> work on loosely typed dictionaries whose values
  are strings, \<^verbatim>\<open>None\<close>, integers, \<^verbatim>\<open>Decimal\<close>s and (in the flight flow) floats.
  A \<^verbatim>\<open>Decimal\<close> is kept as coefficient and exponent (value \<open>c * 10 ^ e\<close>), a float as
  mantissa and binary exponent (value \<open>m * 2 ^ e\<close>); only finite values are represented.
  Strings are byte strings (UTF-8); the only non-ASCII text of the program is the rupee
  sign of the notification messages.
\<close>

datatype decimal = Decimal (coefficient: int) (exponent: int)

datatype pyfloat = PyFloat (mantissa: int) (binary_exponent: int)

datatype attr = S string | I int | D decimal | F pyfloat | Null

type_synonym item = "string \<rightharpoonup> attr"

datatype py_exception =
  KeyError | TypeError | ValueError | AttributeError | InvalidOperation | ClientError

text \<open>
  The outcomes of a handler that are not a success: the flashed or JSON error messages of
  the source under the names of the specification's taxonomy, and an exception that no
  handler catches (the request ends with status 500).
\<close>

datatype error =
  NotLoggedIn | NoPendingBooking | MissingData | InsufficientSeats | SeatCollision
  | Unhandled py_exception

text \<open>\<^verbatim>\<open>Decimal * int\<close>: the coefficients multiply, the exponent stays (rounding to the
  28 significant digits of the default decimal context is not represented).\<close>

definition dec_times_int :: "decimal \<Rightarrow> int \<Rightarrow> decimal" where
  "dec_times_int d n = Decimal (coefficient d * n) (exponent d)"

text \<open>Python compares an integer with a \<^verbatim>\<open>Decimal\<close> or a float by value.\<close>

definition int_less_scaled :: "int \<Rightarrow> int \<Rightarrow> int \<Rightarrow> int \<Rightarrow> bool" where
  "int_less_scaled base m c e =
     (if 0 \<le> e then m < c * base ^ nat e else m * base ^ nat (- e) < c)"

definition int_less_decimal :: "int \<Rightarrow> decimal \<Rightarrow> bool" where
  "int_less_decimal m d = int_less_scaled 10 m (coefficient d) (exponent d)"

definition int_less_float :: "int \<Rightarrow> pyfloat \<Rightarrow> bool" where
  "int_less_float m f = int_less_scaled 2 m (mantissa f) (binary_exponent f)"

subsection \<open>Library functions taken as parameters\<close>

text \<open>
  The parsers and printers of the Python library that the handlers call
  (\<^verbatim>\<open>Decimal(s)\<close>, \<^verbatim>\<open>int(s)\<close>, \<^verbatim>\<open>float(s)\<close>, \<^verbatim>\<open>str(x)\<close>, float multiplication and
  \<^verbatim>\<open>datetime.fromisoformat(s)\<close>, a point in time counted in microseconds) are parameters
  of the model; \<open>None\<close> stands for the exception the library raises on a string it rejects.
\<close>

record pylib =
  py_Decimal :: "string \<Rightarrow> decimal option"
  py_int :: "string \<Rightarrow> int option"
  py_float :: "string \<Rightarrow> pyfloat option"
  float_times_int :: "pyfloat \<Rightarrow> int \<Rightarrow> pyfloat"
  str_Decimal :: "decimal \<Rightarrow> string"
  str_float :: "pyfloat \<Rightarrow> string"
  fromisoformat :: "string \<Rightarrow> int option"

subsection \<open>Strings\<close>

definition digit_char :: "nat \<Rightarrow> char" where
  "digit_char d = ''0123456789'' ! d"

function show_nat :: "nat \<Rightarrow> string" where
  "show_nat n =
     (if n < 10 then [digit_char n] else show_nat (n div 10) @ [digit_char (n mod 10)])"
  by pat_completeness auto
termination
  by (relation "measure id") auto

declare show_nat.simps [simp del]

definition show_int :: "int \<Rightarrow> string" where
  "show_int i = (if i < 0 then ''-'' @ show_nat (nat (- i)) else show_nat (nat i))"

text \<open>\<^verbatim>\<open>str(x)\<close>, as the f-strings of the notification messages apply it.\<close>

definition py_str :: "pylib \<Rightarrow> attr \<Rightarrow> string" where
  "py_str lib v =
     (case v of
        S s \<Rightarrow> s
      | I i \<Rightarrow> show_int i
      | D d \<Rightarrow> str_Decimal lib d
      | F f \<Rightarrow> str_float lib f
      | Null \<Rightarrow> ''None'')"

text \<open>
  \<^verbatim>\<open>s.split(', ')\<close>: the string is scanned from the left, every occurrence of the
  two-character separator ends a field; the empty string gives one empty field.
\<close>

fun split_seats_from :: "string \<Rightarrow> string \<Rightarrow> string list" where
  "split_seats_from acc [] = [rev acc]"
| "split_seats_from acc [c] = [rev (c # acc)]"
| "split_seats_from acc (c # d # rest) =
     (if c = CHR '','' \<and> d = CHR '' '' then rev acc # split_seats_from [] rest
      else split_seats_from (c # acc) (d # rest))"

definition split_seats :: "string \<Rightarrow> string list" where
  "split_seats s = split_seats_from [] s"

text \<open>\<^verbatim>\<open>', '.join(xs)\<close>\<close>

fun join_seats :: "string list \<Rightarrow> string" where
  "join_seats [] = []"
| "join_seats [x] = x"
| "join_seats (x # y # ys) = x @ '', '' @ join_seats (y # ys)"

text \<open>\<^verbatim>\<open>[f"S{i}" for i in range(1, n + 1)]\<close>: 100 seats per train, 40 per bus.\<close>

definition seat_names :: "nat \<Rightarrow> string list" where
  "seat_names n = map (\<lambda>i. ''S'' @ show_nat i) [1..<Suc n]"

definition rupee :: string where
  "rupee = [CHR 0xE2, CHR 0x82, CHR 0xB9]"

definition newline :: string where
  "newline = [CHR 0x0A]"

subsection \<open>Random sampling\<close>

text \<open>
  \<^verbatim>\<open>random.sample(population, k)\<close> selects \<open>k\<close> positions of the population without
  replacement. The random source is an injected sequence of numbers \<open>r\<close>: draw \<open>j\<close> removes
  the element at position \<open>r j mod n\<close> of the \<open>n\<close> elements still in the pool. A negative
  \<open>k\<close> or one larger than the population raises \<^verbatim>\<open>ValueError\<close>.
\<close>

fun sample_from :: "(nat \<Rightarrow> nat) \<Rightarrow> nat \<Rightarrow> 'a list \<Rightarrow> nat \<Rightarrow> 'a list" where
  "sample_from r j pool 0 = []"
| "sample_from r j pool (Suc k) =
     (if pool = [] then []
      else pool ! (r j mod length pool)
           # sample_from r (Suc j)
               (take (r j mod length pool) pool @ drop (Suc (r j mod length pool)) pool) k)"

definition random_sample :: "(nat \<Rightarrow> nat) \<Rightarrow> 'a list \<Rightarrow> int \<Rightarrow> py_exception + 'a list" where
  "random_sample r population k =
     (if k < 0 \<or> int (length population) < k then Inl ValueError
      else Inr (sample_from r 0 population (nat k)))"

section \<open>The booking store, the session and the notification channel\<close>

text \<open>
  The DynamoDB table \<^verbatim>\<open>bookings\<close> holds one item per primary key
  \<^verbatim>\<open>(user_email, booking_date)\<close>; \<^verbatim>\<open>put_item\<close> replaces the item that has the key of the
  new one. Its index \<^verbatim>\<open>GSI_ItemDate\<close> lists the items that carry \<^verbatim>\<open>item_id\<close> and
  \<^verbatim>\<open>travel_date\<close>. Key attributes are strings: the table rejects a write whose key
  attributes are missing or of another type, and a query whose key values are not strings.
\<close>

definition primary_key :: "item \<Rightarrow> attr option \<times> attr option" where
  "primary_key b = (b ''user_email'', b ''booking_date'')"

definition is_str :: "attr option \<Rightarrow> bool" where
  "is_str v = (case v of Some (S s) \<Rightarrow> True | _ \<Rightarrow> False)"

definition absent_or_str :: "attr option \<Rightarrow> bool" where
  "absent_or_str v = (case v of None \<Rightarrow> True | Some (S s) \<Rightarrow> True | _ \<Rightarrow> False)"

definition put_item :: "item \<Rightarrow> item list \<Rightarrow> py_exception + item list" where
  "put_item it st =
     (if is_str (it ''user_email'') \<and> is_str (it ''booking_date'')
         \<and> absent_or_str (it ''item_id'') \<and> absent_or_str (it ''travel_date'')
      then Inr (filter (\<lambda>b. primary_key b \<noteq> primary_key it) st @ [it])
      else Inl ClientError)"

definition delete_item :: "string \<Rightarrow> string \<Rightarrow> item list \<Rightarrow> item list" where
  "delete_item user_email booking_date st =
     filter (\<lambda>b. primary_key b \<noteq> (Some (S user_email), Some (S booking_date))) st"

definition matches :: "string \<Rightarrow> string \<Rightarrow> item \<Rightarrow> bool" where
  "matches iid d b = (b ''item_id'' = Some (S iid) \<and> b ''travel_date'' = Some (S d))"

definition query_item_date :: "item list \<Rightarrow> attr \<Rightarrow> attr \<Rightarrow> py_exception + item list" where
  "query_item_date st item_id travel_date =
     (case item_id of
        S iid \<Rightarrow>
          (case travel_date of
             S d \<Rightarrow> Inr (filter (matches iid d) st)
           | _ \<Rightarrow> Inl ClientError)
      | _ \<Rightarrow> Inl ClientError)"

text \<open>
  The Flask session of one browser: the keys the handlers read and write, absent when
  \<open>None\<close>. It is kept by value: what a handler stores is what a later handler reads
  (the cookie's serialisation is not represented). The world is the table, one session
  and the trace of the writes and notifications made so far.
\<close>

record flask_session =
  email :: "string option"
  pending_booking :: "item option"
  pending_flight_booking :: "item option"
  pending_hotel_booking :: "item option"

datatype event = PutItem item | DeleteItem string string | Publish string string

record world =
  store :: "item list"
  session :: flask_session
  events :: "event list"

text \<open>What a request reads from its environment: the clock
  (\<^verbatim>\<open>datetime.now().isoformat()\<close>), \<^verbatim>\<open>str(uuid.uuid4())\<close> and the random source.\<close>

record env =
  now :: string
  uuid4 :: string
  rng :: "nat \<Rightarrow> nat"

text \<open>\<^verbatim>\<open>send_sns_notification\<close> (lines 26-38): the publish call is made once; a failure
  of the channel is printed and swallowed, so the caller always continues.\<close>

definition send_sns_notification :: "string \<Rightarrow> string \<Rightarrow> world \<Rightarrow> world" where
  "send_sns_notification subject message w = w\<lparr>events := events w @ [Publish subject message]\<rparr>"

section \<open>Seat availability\<close>

text \<open>
  The loop over the query result (lines 177-180, again 218-221, 315-318 and 348-351):
  a record without \<^verbatim>\<open>seats_display\<close> is passed over, a string is split and added to
  the set; any other value has no \<^verbatim>\<open>split\<close> method and raises \<^verbatim>\<open>AttributeError\<close>.
\<close>

fun booked_seats_loop :: "item list \<Rightarrow> string set \<Rightarrow> py_exception + string set" where
  "booked_seats_loop [] booked_seats = Inr booked_seats"
| "booked_seats_loop (b # bs) booked_seats =
     (case b ''seats_display'' of
        None \<Rightarrow> booked_seats_loop bs booked_seats
      | Some (S s) \<Rightarrow> booked_seats_loop bs (booked_seats \<union> set (split_seats s))
      | Some _ \<Rightarrow> Inl AttributeError)"

definition query_booked_seats :: "item list \<Rightarrow> attr \<Rightarrow> attr \<Rightarrow> py_exception + string set" where
  "query_booked_seats st item_id travel_date =
     (case query_item_date st item_id travel_date of
        Inl x \<Rightarrow> Inl x
      | Inr items \<Rightarrow> booked_seats_loop items {})"

text \<open>
  The availability computation that the train handlers inline (lines 172-183 and
  213-224): query, loop, and the comprehension over the seat universe.
\<close>

definition computeAvailableSeats ::
  "item list \<Rightarrow> attr \<Rightarrow> attr \<Rightarrow> string list \<Rightarrow> py_exception + string list" where
  "computeAvailableSeats st item_id travel_date all_seats =
     (case query_booked_seats st item_id travel_date of
        Inl x \<Rightarrow> Inl x
      | Inr booked_seats \<Rightarrow> Inr [seat \<leftarrow> all_seats. seat \<notin> booked_seats])"

section \<open>Request handlers\<close>

definition arg_get :: "(string \<rightharpoonup> string) \<Rightarrow> string \<Rightarrow> attr" where
  "arg_get args k = (case args k of None \<Rightarrow> Null | Some s \<Rightarrow> S s)"

definition parse_Decimal :: "pylib \<Rightarrow> string option \<Rightarrow> py_exception + decimal" where
  "parse_Decimal lib v =
     (case v of
        None \<Rightarrow> Inl TypeError
      | Some s \<Rightarrow> (case py_Decimal lib s of None \<Rightarrow> Inl InvalidOperation | Some d \<Rightarrow> Inr d))"

definition parse_int :: "pylib \<Rightarrow> string option \<Rightarrow> py_exception + int" where
  "parse_int lib v =
     (case v of
        None \<Rightarrow> Inl TypeError
      | Some s \<Rightarrow> (case py_int lib s of None \<Rightarrow> Inl ValueError | Some i \<Rightarrow> Inr i))"

definition parse_price_persons ::
  "pylib \<Rightarrow> (string \<rightharpoonup> string) \<Rightarrow> py_exception + decimal \<times> int" where
  "parse_price_persons lib args =
     (case parse_Decimal lib (args ''price'') of
        Inl x \<Rightarrow> Inl x
      | Inr price \<Rightarrow>
          (case parse_int lib (args ''persons'') of
             Inl x \<Rightarrow> Inl x
           | Inr persons \<Rightarrow> Inr (price, persons)))"

definition set_pending :: "item \<Rightarrow> world \<Rightarrow> world" where
  "set_pending d w = w\<lparr>session := (session w)\<lparr>pending_booking := Some d\<rparr>\<rparr>"

definition take_pending :: "world \<Rightarrow> world" where
  "take_pending w = w\<lparr>session := (session w)\<lparr>pending_booking := None\<rparr>\<rparr>"

text \<open>
  The last steps of the four finalizing handlers: \<^verbatim>\<open>put_item\<close>, then the f-string of the
  message (a key it names may be missing), then the notification.
\<close>

definition commit_booking ::
  "item \<Rightarrow> string \<Rightarrow> string option \<Rightarrow> world \<Rightarrow> (error + unit) \<times> world" where
  "commit_booking rec subject message w =
     (case put_item rec (store w) of
        Inl x \<Rightarrow> (Inl (Unhandled x), w)
      | Inr st \<Rightarrow>
          (case message of
             None \<Rightarrow> (Inl (Unhandled KeyError), w\<lparr>store := st, events := events w @ [PutItem rec]\<rparr>)
           | Some msg \<Rightarrow>
               (Inr (),
                send_sns_notification subject msg
                  (w\<lparr>store := st, events := events w @ [PutItem rec]\<rparr>))))"

subsection \<open>Trains\<close>

definition train_booking_details :: "(string \<rightharpoonup> string) \<Rightarrow> string \<Rightarrow> decimal \<Rightarrow> int \<Rightarrow> item" where
  "train_booking_details args user price persons =
     [''name'' \<mapsto> arg_get args ''name'',
      ''train_number'' \<mapsto> arg_get args ''trainNumber'',
      ''source'' \<mapsto> arg_get args ''source'',
      ''destination'' \<mapsto> arg_get args ''destination'',
      ''departure_time'' \<mapsto> arg_get args ''departureTime'',
      ''arrival_time'' \<mapsto> arg_get args ''arrivalTime'',
      ''price_per_person'' \<mapsto> D price,
      ''travel_date'' \<mapsto> arg_get args ''date'',
      ''num_persons'' \<mapsto> I persons,
      ''item_id'' \<mapsto> arg_get args ''trainId'',
      ''booking_type'' \<mapsto> S ''train'',
      ''user_email'' \<mapsto> S user,
      ''total_price'' \<mapsto> D (dec_times_int price persons)]"

text \<open>\<^verbatim>\<open>confirm_train_details\<close> (lines 145-196); the reply is the list of seats shown.\<close>

definition confirm_train_details ::
  "pylib \<Rightarrow> env \<Rightarrow> (string \<rightharpoonup> string) \<Rightarrow> world \<Rightarrow> (error + string list) \<times> world" where
  "confirm_train_details lib e args w =
     (case email (session w) of
        None \<Rightarrow> (Inl NotLoggedIn, w)
      | Some user \<Rightarrow>
          (case parse_price_persons lib args of
             Inl x \<Rightarrow> (Inl (Unhandled x), w)
           | Inr (price, persons) \<Rightarrow>
               (case computeAvailableSeats (store w) (arg_get args ''trainId'')
                       (arg_get args ''date'') (seat_names 100) of
                  Inl x \<Rightarrow> (Inl (Unhandled x), w)
                | Inr available_seats \<Rightarrow>
                    if int (length available_seats) < persons then (Inl InsufficientSeats, w)
                    else
                      (case random_sample (rng e) available_seats
                              (min (int (length available_seats)) persons) of
                         Inl x \<Rightarrow>
                           (Inl (Unhandled x),
                            set_pending (train_booking_details args user price persons) w)
                       | Inr seats_to_display \<Rightarrow>
                           (Inr seats_to_display,
                            set_pending (train_booking_details args user price persons) w)))))"

text \<open>
  The capacity check of line 226 and the argument check of \<^verbatim>\<open>random.sample\<close>:
  \<^verbatim>\<open>len(available_seats) < num_persons\<close> compares by value with any number and raises
  \<^verbatim>\<open>TypeError\<close> on a string or \<^verbatim>\<open>None\<close>; the sample size must then be an integer.
\<close>

definition sample_count :: "nat \<Rightarrow> attr \<Rightarrow> error + int" where
  "sample_count n num_persons =
     (case num_persons of
        I k \<Rightarrow> if int n < k then Inl InsufficientSeats else Inr k
      | D d \<Rightarrow>
          if int_less_decimal (int n) d then Inl InsufficientSeats
          else if coefficient d < 0 then Inl (Unhandled ValueError)
          else Inl (Unhandled TypeError)
      | F f \<Rightarrow>
          if int_less_float (int n) f then Inl InsufficientSeats
          else if mantissa f < 0 then Inl (Unhandled ValueError)
          else Inl (Unhandled TypeError)
      | _ \<Rightarrow> Inl (Unhandled TypeError))"

text \<open>Lines 212-235: the re-check, the allocation and the three fields added to the draft.\<close>

definition allocate_train_seats :: "env \<Rightarrow> item list \<Rightarrow> item \<Rightarrow> error + item" where
  "allocate_train_seats e st booking_data =
     (case booking_data ''item_id'' of
        None \<Rightarrow> Inl (Unhandled KeyError)
      | Some item_id \<Rightarrow>
          (case booking_data ''travel_date'' of
             None \<Rightarrow> Inl (Unhandled KeyError)
           | Some travel_date \<Rightarrow>
               (case computeAvailableSeats st item_id travel_date (seat_names 100) of
                  Inl x \<Rightarrow> Inl (Unhandled x)
                | Inr available_seats \<Rightarrow>
                    (case booking_data ''num_persons'' of
                       None \<Rightarrow> Inl (Unhandled KeyError)
                     | Some num_persons \<Rightarrow>
                         (case sample_count (length available_seats) num_persons of
                            Inl err \<Rightarrow> Inl err
                          | Inr k \<Rightarrow>
                              (case random_sample (rng e) available_seats k of
                                 Inl x \<Rightarrow> Inl (Unhandled x)
                               | Inr allocated_seats \<Rightarrow>
                                   Inr (booking_data
                                         (''seats_display'' \<mapsto> S (join_seats allocated_seats),
                                          ''booking_id'' \<mapsto> S (uuid4 e),
                                          ''booking_date'' \<mapsto> S (now e)))))))))"

definition train_message :: "pylib \<Rightarrow> item \<Rightarrow> string option" where
  "train_message lib b =
     do {
       train_number \<leftarrow> b ''train_number'';
       source \<leftarrow> b ''source'';
       destination \<leftarrow> b ''destination'';
       travel_date \<leftarrow> b ''travel_date'';
       seats_display \<leftarrow> b ''seats_display'';
       total_price \<leftarrow> b ''total_price'';
       Some (''Train '' @ py_str lib train_number @ '' from '' @ py_str lib source
             @ '' to '' @ py_str lib destination @ '' on '' @ py_str lib travel_date
             @ '' is confirmed.'' @ newline @ ''Seats: '' @ py_str lib seats_display
             @ newline @ ''Total: '' @ rupee @ py_str lib total_price)
     }"

text \<open>\<^verbatim>\<open>final_confirm_train_booking\<close> (lines 198-246).\<close>

definition final_confirm_train_booking :: "pylib \<Rightarrow> env \<Rightarrow> world \<Rightarrow> (error + unit) \<times> world" where
  "final_confirm_train_booking lib e w =
     (case email (session w) of
        None \<Rightarrow> (Inl NotLoggedIn, w)
      | Some user \<Rightarrow>
          (case pending_booking (session w) of
             None \<Rightarrow> (Inl NoPendingBooking, take_pending w)
           | Some booking_data \<Rightarrow>
               if booking_data = Map.empty then (Inl NoPendingBooking, take_pending w)
               else
                 (case allocate_train_seats e (store w) booking_data of
                    Inl err \<Rightarrow> (Inl err, take_pending w)
                  | Inr rec \<Rightarrow>
                      commit_booking rec ''Train Booking Confirmed'' (train_message lib rec)
                        (take_pending w))))"

subsection \<open>Buses\<close>

definition bus_booking_details :: "(string \<rightharpoonup> string) \<Rightarrow> string \<Rightarrow> decimal \<Rightarrow> int \<Rightarrow> item" where
  "bus_booking_details args user price persons =
     [''name'' \<mapsto> arg_get args ''name'',
      ''source'' \<mapsto> arg_get args ''source'',
      ''destination'' \<mapsto> arg_get args ''destination'',
      ''time'' \<mapsto> arg_get args ''time'',
      ''type'' \<mapsto> arg_get args ''type'',
      ''price_per_person'' \<mapsto> D price,
      ''travel_date'' \<mapsto> arg_get args ''date'',
      ''num_persons'' \<mapsto> I persons,
      ''item_id'' \<mapsto> arg_get args ''busId'',
      ''booking_type'' \<mapsto> S ''bus'',
      ''user_email'' \<mapsto> S user,
      ''total_price'' \<mapsto> D (dec_times_int price persons)]"

text \<open>\<^verbatim>\<open>confirm_bus_details\<close> (lines 258-282).\<close>

definition confirm_bus_details ::
  "pylib \<Rightarrow> (string \<rightharpoonup> string) \<Rightarrow> world \<Rightarrow> (error + unit) \<times> world" where
  "confirm_bus_details lib args w =
     (case email (session w) of
        None \<Rightarrow> (Inl NotLoggedIn, w)
      | Some user \<Rightarrow>
          (case parse_price_persons lib args of
             Inl x \<Rightarrow> (Inl (Unhandled x), w)
           | Inr (price, persons) \<Rightarrow>
               (Inr (), set_pending (bus_booking_details args user price persons) w)))"

text \<open>\<^verbatim>\<open>select_bus_seats\<close> (lines 284-323); the reply is what the seat page is given:
  the booked seats and the universe of 40 seats.\<close>

definition select_bus_seats ::
  "pylib \<Rightarrow> (string \<rightharpoonup> string) \<Rightarrow> world \<Rightarrow> (error + string set \<times> string list) \<times> world" where
  "select_bus_seats lib args w =
     (case email (session w) of
        None \<Rightarrow> (Inl NotLoggedIn, w)
      | Some user \<Rightarrow>
          (case parse_price_persons lib args of
             Inl x \<Rightarrow> (Inl (Unhandled x), w)
           | Inr (price, persons) \<Rightarrow>
               (case query_booked_seats (store w) (arg_get args ''busId'') (arg_get args ''date'') of
                  Inl x \<Rightarrow> (Inl (Unhandled x), w)
                | Inr booked_seats \<Rightarrow>
                    (Inr (booked_seats, seat_names 40),
                     set_pending (bus_booking_details args user price persons) w))))"

text \<open>Lines 341-361: the collision re-check and the three fields added to the draft.\<close>

definition check_bus_seats :: "env \<Rightarrow> item list \<Rightarrow> item \<Rightarrow> string \<Rightarrow> error + item" where
  "check_bus_seats e st booking selected_seats_str =
     (case booking ''item_id'' of
        None \<Rightarrow> Inl (Unhandled KeyError)
      | Some item_id \<Rightarrow>
          (case booking ''travel_date'' of
             None \<Rightarrow> Inl (Unhandled KeyError)
           | Some travel_date \<Rightarrow>
               (case query_booked_seats st item_id travel_date of
                  Inl x \<Rightarrow> Inl (Unhandled x)
                | Inr existing_booked_seats \<Rightarrow>
                    if list_ex (\<lambda>s. s \<in> existing_booked_seats) (split_seats selected_seats_str)
                    then Inl SeatCollision
                    else Inr (booking
                               (''seats_display'' \<mapsto> S selected_seats_str,
                                ''booking_id'' \<mapsto> S (uuid4 e),
                                ''booking_date'' \<mapsto> S (now e))))))"

definition bus_message :: "pylib \<Rightarrow> item \<Rightarrow> string option" where
  "bus_message lib b =
     do {
       source \<leftarrow> b ''source'';
       destination \<leftarrow> b ''destination'';
       travel_date \<leftarrow> b ''travel_date'';
       seats_display \<leftarrow> b ''seats_display'';
       total_price \<leftarrow> b ''total_price'';
       Some (''Your bus from '' @ py_str lib source @ '' to '' @ py_str lib destination
             @ '' on '' @ py_str lib travel_date @ '' is confirmed.'' @ newline
             @ ''Seats: '' @ py_str lib seats_display @ newline
             @ ''Total: '' @ rupee @ py_str lib total_price)
     }"

text \<open>\<^verbatim>\<open>final_confirm_bus_booking\<close> (lines 325-373); \<open>form\<close> is the posted form.\<close>

definition final_confirm_bus_booking ::
  "pylib \<Rightarrow> env \<Rightarrow> (string \<rightharpoonup> string) \<Rightarrow> world \<Rightarrow> (error + unit) \<times> world" where
  "final_confirm_bus_booking lib e form w =
     (case email (session w) of
        None \<Rightarrow> (Inl NotLoggedIn, w)
      | Some user \<Rightarrow>
          (case pending_booking (session w) of
             None \<Rightarrow> (Inl MissingData, take_pending w)
           | Some booking \<Rightarrow>
               (case form ''selected_seats'' of
                  None \<Rightarrow> (Inl MissingData, take_pending w)
                | Some selected_seats_str \<Rightarrow>
                    if booking = Map.empty \<or> selected_seats_str = [] then
                      (Inl MissingData, take_pending w)
                    else
                      (case check_bus_seats e (store w) booking selected_seats_str of
                         Inl err \<Rightarrow> (Inl err, take_pending w)
                       | Inr rec \<Rightarrow>
                           commit_booking rec ''Bus Booking Confirmed'' (bus_message lib rec)
                             (take_pending w)))))"

subsection \<open>Flights\<close>

text \<open>\<^verbatim>\<open>confirm_flight_details\<close> (lines 385-411): \<^verbatim>\<open>request.args[k]\<close> raises on a
  missing argument.\<close>

definition flight_strings :: "(string \<rightharpoonup> string) \<Rightarrow> (item \<times> string) option" where
  "flight_strings args =
     do {
       flight_id \<leftarrow> args ''flight_id'';
       airline \<leftarrow> args ''airline'';
       flight_number \<leftarrow> args ''flight_number'';
       source \<leftarrow> args ''source'';
       destination \<leftarrow> args ''destination'';
       departure \<leftarrow> args ''departure'';
       arrival \<leftarrow> args ''arrival'';
       date \<leftarrow> args ''date'';
       passengers \<leftarrow> args ''passengers'';
       Some ([''flight_id'' \<mapsto> S flight_id,
              ''airline'' \<mapsto> S airline,
              ''flight_number'' \<mapsto> S flight_number,
              ''source'' \<mapsto> S source,
              ''destination'' \<mapsto> S destination,
              ''departure_time'' \<mapsto> S departure,
              ''arrival_time'' \<mapsto> S arrival,
              ''travel_date'' \<mapsto> S date], passengers)
     }"

definition flight_booking_details :: "pylib \<Rightarrow> (string \<rightharpoonup> string) \<Rightarrow> py_exception + item" where
  "flight_booking_details lib args =
     (case flight_strings args of
        None \<Rightarrow> Inl KeyError
      | Some (booking, passengers) \<Rightarrow>
          (case py_int lib passengers of
             None \<Rightarrow> Inl ValueError
           | Some num_persons \<Rightarrow>
               (case args ''price'' of
                  None \<Rightarrow> Inl KeyError
                | Some p \<Rightarrow>
                    (case py_float lib p of
                       None \<Rightarrow> Inl ValueError
                     | Some price \<Rightarrow>
                         Inr (booking
                               (''num_persons'' \<mapsto> I num_persons,
                                ''price_per_person'' \<mapsto> F price,
                                ''total_price'' \<mapsto> F (float_times_int lib price num_persons)))))))"

definition confirm_flight_details ::
  "pylib \<Rightarrow> (string \<rightharpoonup> string) \<Rightarrow> world \<Rightarrow> (error + unit) \<times> world" where
  "confirm_flight_details lib args w =
     (case email (session w) of
        None \<Rightarrow> (Inl NotLoggedIn, w)
      | Some user \<Rightarrow>
          (case flight_booking_details lib args of
             Inl x \<Rightarrow> (Inl (Unhandled x), w)
           | Inr booking \<Rightarrow>
               (Inr (), w\<lparr>session := (session w)\<lparr>pending_flight_booking := Some booking\<rparr>\<rparr>)))"

text \<open>\<^verbatim>\<open>Decimal(str(booking[k]))\<close> (lines 436-437 and 517-518).\<close>

definition to_Decimal :: "pylib \<Rightarrow> item \<Rightarrow> string \<Rightarrow> py_exception + decimal" where
  "to_Decimal lib booking k =
     (case booking k of
        None \<Rightarrow> Inl KeyError
      | Some v \<Rightarrow>
          (case py_Decimal lib (py_str lib v) of
             None \<Rightarrow> Inl InvalidOperation
           | Some d \<Rightarrow> Inr d))"

text \<open>Lines 429-437: the fields added to the flight draft.\<close>

definition flight_record :: "pylib \<Rightarrow> env \<Rightarrow> string \<Rightarrow> item \<Rightarrow> py_exception + item" where
  "flight_record lib e user booking =
     (case to_Decimal lib booking ''price_per_person'' of
        Inl x \<Rightarrow> Inl x
      | Inr price_per_person \<Rightarrow>
          (case to_Decimal lib booking ''total_price'' of
             Inl x \<Rightarrow> Inl x
           | Inr total_price \<Rightarrow>
               Inr (booking
                     (''booking_type'' \<mapsto> S ''flight'',
                      ''user_email'' \<mapsto> S user,
                      ''booking_date'' \<mapsto> S (now e),
                      ''booking_id'' \<mapsto> S (uuid4 e),
                      ''price_per_person'' \<mapsto> D price_per_person,
                      ''total_price'' \<mapsto> D total_price))))"

definition flight_message :: "pylib \<Rightarrow> item \<Rightarrow> string option" where
  "flight_message lib b =
     do {
       travel_date \<leftarrow> b ''travel_date'';
       source \<leftarrow> b ''source'';
       destination \<leftarrow> b ''destination'';
       airline \<leftarrow> b ''airline'';
       total_price \<leftarrow> b ''total_price'';
       Some (''Your flight booking on '' @ py_str lib travel_date @ '' from ''
             @ py_str lib source @ '' to '' @ py_str lib destination @ '' with ''
             @ py_str lib airline @ '' is confirmed.'' @ newline
             @ ''Total: '' @ rupee @ py_str lib total_price)
     }"

text \<open>\<^verbatim>\<open>confirm_flight_booking\<close> (lines 413-449).\<close>

definition confirm_flight_booking :: "pylib \<Rightarrow> env \<Rightarrow> world \<Rightarrow> (error + unit) \<times> world" where
  "confirm_flight_booking lib e w =
     (case email (session w) of
        None \<Rightarrow> (Inl NotLoggedIn, w)
      | Some user \<Rightarrow>
          (case pending_flight_booking (session w) of
             None \<Rightarrow>
               (Inl NoPendingBooking, w\<lparr>session := (session w)\<lparr>pending_flight_booking := None\<rparr>\<rparr>)
           | Some booking \<Rightarrow>
               if booking = Map.empty then
                 (Inl NoPendingBooking, w\<lparr>session := (session w)\<lparr>pending_flight_booking := None\<rparr>\<rparr>)
               else
                 (case flight_record lib e user booking of
                    Inl x \<Rightarrow>
                      (Inl (Unhandled x),
                       w\<lparr>session := (session w)\<lparr>pending_flight_booking := None\<rparr>\<rparr>)
                  | Inr rec \<Rightarrow>
                      commit_booking rec ''Flight Booking Confirmed'' (flight_message lib rec)
                        (w\<lparr>session := (session w)\<lparr>pending_flight_booking := None\<rparr>\<rparr>))))"

subsection \<open>Hotels\<close>

text \<open>Lines 483-485: \<^verbatim>\<open>(co - ci).days\<close>, the whole days between two points in time.\<close>

definition nights_between :: "pylib \<Rightarrow> string option \<Rightarrow> string option \<Rightarrow> py_exception + int" where
  "nights_between lib checkin checkout =
     (case checkin of
        None \<Rightarrow> Inl TypeError
      | Some a \<Rightarrow>
          (case fromisoformat lib a of
             None \<Rightarrow> Inl ValueError
           | Some ci \<Rightarrow>
               (case checkout of
                  None \<Rightarrow> Inl TypeError
                | Some b \<Rightarrow>
                    (case fromisoformat lib b of
                       None \<Rightarrow> Inl ValueError
                     | Some co \<Rightarrow> Inr ((co - ci) div 86400000000)))))"

definition hotel_numbers ::
  "pylib \<Rightarrow> (string \<rightharpoonup> string) \<Rightarrow> py_exception + int \<times> int \<times> decimal \<times> int" where
  "hotel_numbers lib args =
     (case parse_int lib (args ''rooms'') of
        Inl x \<Rightarrow> Inl x
      | Inr num_rooms \<Rightarrow>
          (case parse_int lib (args ''guests'') of
             Inl x \<Rightarrow> Inl x
           | Inr num_guests \<Rightarrow>
               (case parse_Decimal lib (args ''price'') of
                  Inl x \<Rightarrow> Inl x
                | Inr price_per_night \<Rightarrow>
                    (case parse_int lib (args ''rating'') of
                       Inl x \<Rightarrow> Inl x
                     | Inr rating \<Rightarrow> Inr (num_rooms, num_guests, price_per_night, rating)))))"

text \<open>\<^verbatim>\<open>confirm_hotel_details\<close> (lines 461-492).\<close>

definition hotel_booking_details :: "pylib \<Rightarrow> (string \<rightharpoonup> string) \<Rightarrow> py_exception + item" where
  "hotel_booking_details lib args =
     (case hotel_numbers lib args of
        Inl x \<Rightarrow> Inl x
      | Inr (num_rooms, num_guests, price_per_night, rating) \<Rightarrow>
          (case nights_between lib (args ''checkin'') (args ''checkout'') of
             Inl x \<Rightarrow> Inl x
           | Inr nights \<Rightarrow>
               Inr [''name'' \<mapsto> arg_get args ''name'',
                    ''location'' \<mapsto> arg_get args ''location'',
                    ''checkin_date'' \<mapsto> arg_get args ''checkin'',
                    ''checkout_date'' \<mapsto> arg_get args ''checkout'',
                    ''num_rooms'' \<mapsto> I num_rooms,
                    ''num_guests'' \<mapsto> I num_guests,
                    ''price_per_night'' \<mapsto> D price_per_night,
                    ''rating'' \<mapsto> I rating,
                    ''nights'' \<mapsto> I nights,
                    ''total_price'' \<mapsto>
                      D (dec_times_int (dec_times_int price_per_night num_rooms) nights)]))"

definition confirm_hotel_details ::
  "pylib \<Rightarrow> (string \<rightharpoonup> string) \<Rightarrow> world \<Rightarrow> (error + unit) \<times> world" where
  "confirm_hotel_details lib args w =
     (case email (session w) of
        None \<Rightarrow> (Inl NotLoggedIn, w)
      | Some user \<Rightarrow>
          (case hotel_booking_details lib args of
             Inl x \<Rightarrow> (Inl (Unhandled x), w)
           | Inr booking \<Rightarrow>
               (Inr (), w\<lparr>session := (session w)\<lparr>pending_hotel_booking := Some booking\<rparr>\<rparr>)))"

text \<open>Lines 510-518: the fields added to the hotel draft.\<close>

definition hotel_record :: "pylib \<Rightarrow> env \<Rightarrow> string \<Rightarrow> item \<Rightarrow> py_exception + item" where
  "hotel_record lib e user booking =
     (case to_Decimal lib booking ''price_per_night'' of
        Inl x \<Rightarrow> Inl x
      | Inr price_per_night \<Rightarrow>
          (case to_Decimal lib booking ''total_price'' of
             Inl x \<Rightarrow> Inl x
           | Inr total_price \<Rightarrow>
               Inr (booking
                     (''booking_type'' \<mapsto> S ''hotel'',
                      ''user_email'' \<mapsto> S user,
                      ''booking_date'' \<mapsto> S (now e),
                      ''booking_id'' \<mapsto> S (uuid4 e),
                      ''price_per_night'' \<mapsto> D price_per_night,
                      ''total_price'' \<mapsto> D total_price))))"

definition hotel_message :: "pylib \<Rightarrow> item \<Rightarrow> string option" where
  "hotel_message lib b =
     do {
       name \<leftarrow> b ''name'';
       location \<leftarrow> b ''location'';
       checkin_date \<leftarrow> b ''checkin_date'';
       checkout_date \<leftarrow> b ''checkout_date'';
       total_price \<leftarrow> b ''total_price'';
       Some (''Hotel booking at '' @ py_str lib name @ '' in '' @ py_str lib location
             @ '' from '' @ py_str lib checkin_date @ '' to '' @ py_str lib checkout_date
             @ '' is confirmed.'' @ newline
             @ ''Total: '' @ rupee @ py_str lib total_price)
     }"

text \<open>\<^verbatim>\<open>confirm_hotel_booking\<close> (lines 494-530).\<close>

definition confirm_hotel_booking :: "pylib \<Rightarrow> env \<Rightarrow> world \<Rightarrow> (error + unit) \<times> world" where
  "confirm_hotel_booking lib e w =
     (case email (session w) of
        None \<Rightarrow> (Inl NotLoggedIn, w)
      | Some user \<Rightarrow>
          (case pending_hotel_booking (session w) of
             None \<Rightarrow>
               (Inl NoPendingBooking, w\<lparr>session := (session w)\<lparr>pending_hotel_booking := None\<rparr>\<rparr>)
           | Some booking \<Rightarrow>
               if booking = Map.empty then
                 (Inl NoPendingBooking, w\<lparr>session := (session w)\<lparr>pending_hotel_booking := None\<rparr>\<rparr>)
               else
                 (case hotel_record lib e user booking of
                    Inl x \<Rightarrow>
                      (Inl (Unhandled x),
                       w\<lparr>session := (session w)\<lparr>pending_hotel_booking := None\<rparr>\<rparr>)
                  | Inr rec \<Rightarrow>
                      commit_booking rec ''Hotel Booking Confirmed'' (hotel_message lib rec)
                        (w\<lparr>session := (session w)\<lparr>pending_hotel_booking := None\<rparr>\<rparr>))))"

subsection \<open>Cancellation\<close>

text \<open>\<^verbatim>\<open>cancel_booking\<close> (lines 532-558): the posted \<^verbatim>\<open>booking_id\<close> must be present but
  only labels the message; the item is deleted by the key of the session's user and the
  posted \<^verbatim>\<open>booking_date\<close>.\<close>

definition cancel_booking :: "(string \<rightharpoonup> string) \<Rightarrow> world \<Rightarrow> (error + unit) \<times> world" where
  "cancel_booking form w =
     (case email (session w) of
        None \<Rightarrow> (Inl NotLoggedIn, w)
      | Some user_email \<Rightarrow>
          (case form ''booking_id'' of
             None \<Rightarrow> (Inl MissingData, w)
           | Some booking_id \<Rightarrow>
               (case form ''booking_date'' of
                  None \<Rightarrow> (Inl MissingData, w)
                | Some booking_date \<Rightarrow>
                    if booking_id = [] \<or> booking_date = [] then (Inl MissingData, w)
                    else
                      (Inr (),
                       w\<lparr>store := delete_item user_email booking_date (store w),
                         events := events w @ [DeleteItem user_email booking_date]\<rparr>))))"

section \<open>The specification's notions\<close>

text \<open>
  The seats a record contributes, as the specification words it: the parsed
  \<^verbatim>\<open>seats_display\<close> of a record that has one.
\<close>

definition seats_of :: "item \<Rightarrow> string set" where
  "seats_of b = (case b ''seats_display'' of Some (S s) \<Rightarrow> set (split_seats s) | _ \<Rightarrow> {})"

text \<open>The taken set of an item and date: the union of the parsed \<^verbatim>\<open>seats_display\<close>
  sets of the records that match the pair.\<close>

definition spec_taken :: "item list \<Rightarrow> string \<Rightarrow> string \<Rightarrow> string set" where
  "spec_taken st iid d = \<Union> (set (map seats_of (filter (matches iid d) st)))"

text \<open>A record whose \<^verbatim>\<open>seats_display\<close> is present and not a string.\<close>

definition unparsable :: "item \<Rightarrow> bool" where
  "unparsable b = (\<not> absent_or_str (b ''seats_display''))"

text \<open>The data model's typing of the records of an item and date: \<^verbatim>\<open>seats_display\<close>,
  where present, is a string.\<close>

definition seats_parse :: "item list \<Rightarrow> string \<Rightarrow> string \<Rightarrow> bool" where
  "seats_parse st iid d =
     list_all (\<lambda>b. absent_or_str (b ''seats_display'')) (filter (matches iid d) st)"

section \<open>Example data\<close>

text \<open>Concrete records, requests and library stubs on which the theorems below are
  instantiated.\<close>

definition train_T100 :: item where
  "train_T100 =
     [''user_email'' \<mapsto> S ''bob@example.com'',
      ''booking_date'' \<mapsto> S ''2024-05-20T09:00:00.000000'',
      ''booking_id'' \<mapsto> S ''id-1'',
      ''item_id'' \<mapsto> S ''T100'',
      ''travel_date'' \<mapsto> S ''2024-06-01'',
      ''seats_display'' \<mapsto> S ''S1, S2'']"

definition full_T100 :: item where
  "full_T100 = train_T100(''seats_display'' \<mapsto> S (join_seats (seat_names 95)))"


definition no_seats_T100 :: item where
  "no_seats_T100 =
     [''user_email'' \<mapsto> S ''carol@example.com'',
      ''booking_date'' \<mapsto> S ''2024-05-19T08:00:00.000000'',
      ''booking_id'' \<mapsto> S ''id-0'',
      ''item_id'' \<mapsto> S ''T100'',
      ''travel_date'' \<mapsto> S ''2024-06-01'']"

definition demo_lib :: pylib where
  "demo_lib =
     \<lparr>py_Decimal = map_of [(''150'', Decimal 150 0), (''4500.0'', Decimal 45000 (- 1)),
                           (''9000.0'', Decimal 90000 (- 1)), (''300'', Decimal 300 0)],
      py_int = map_of [(''1'', 1), (''2'', 2), (''3'', 3), (''10'', 10)],
      py_float = map_of [(''4500'', PyFloat 4500 0)],
      float_times_int = (\<lambda>f n. PyFloat (mantissa f * n) (binary_exponent f)),
      str_Decimal = (\<lambda>d. show_int (coefficient d)),
      str_float = (\<lambda>f. show_int (mantissa f) @ ''.0''),
      fromisoformat = map_of [(''2024-06-01'', 0), (''2024-06-03'', 172800000000)]\<rparr>"

definition demo_env :: env where
  "demo_env = \<lparr>now = ''2024-05-21T10:30:00.000000'', uuid4 = ''id-2'', rng = (\<lambda>j. 0)\<rparr>"

definition alice :: flask_session where
  "alice = \<lparr>email = Some ''alice@example.com'', pending_booking = None,
            pending_flight_booking = None, pending_hotel_booking = None\<rparr>"

definition bus_args :: "string \<rightharpoonup> string" where
  "bus_args =
     [''name'' \<mapsto> ''Night Rider'', ''source'' \<mapsto> ''Pune'', ''destination'' \<mapsto> ''Goa'',
      ''time'' \<mapsto> ''21:00'', ''type'' \<mapsto> ''Sleeper'', ''price'' \<mapsto> ''150'',
      ''date'' \<mapsto> ''2024-06-01'', ''persons'' \<mapsto> ''1'', ''busId'' \<mapsto> ''B7'']"

definition bus_world :: world where
  "bus_world = snd (confirm_bus_details demo_lib bus_args \<lparr>store = [], session = alice, events = []\<rparr>)"

definition seat_S41 :: "string \<rightharpoonup> string" where
  "seat_S41 = [''selected_seats'' \<mapsto> ''S41'']"

definition bus_S41_store :: "item list" where
  "bus_S41_store = store (snd (final_confirm_bus_booking demo_lib demo_env seat_S41 bus_world))"

definition train_args :: "string \<rightharpoonup> string" where
  "train_args =
     [''name'' \<mapsto> ''Alice'', ''trainNumber'' \<mapsto> ''12627'', ''source'' \<mapsto> ''Bengaluru'',
      ''destination'' \<mapsto> ''Delhi'', ''departureTime'' \<mapsto> ''19:20'',
      ''arrivalTime'' \<mapsto> ''06:40'', ''price'' \<mapsto> ''150'', ''date'' \<mapsto> ''2024-06-01'',
      ''persons'' \<mapsto> ''3'', ''trainId'' \<mapsto> ''T100'']"

definition empty_world :: world where
  "empty_world = \<lparr>store = [], session = alice, events = []\<rparr>"


definition shortage_world :: world where
  "shortage_world =
     \<lparr>store = [full_T100],
      session = alice\<lparr>pending_booking :=
        Some (train_booking_details train_args ''alice@example.com'' (Decimal 150 0) 10)\<rparr>,
      events = []\<rparr>"

definition bus_B7 :: item where
  "bus_B7 =
     [''user_email'' \<mapsto> S ''bob@example.com'',
      ''booking_date'' \<mapsto> S ''2024-05-20T09:00:00.000000'',
      ''booking_id'' \<mapsto> S ''id-1'',
      ''item_id'' \<mapsto> S ''B7'',
      ''travel_date'' \<mapsto> S ''2024-06-01'',
      ''seats_display'' \<mapsto> S ''S1'']"

definition seats_S1_S2 :: "string \<rightharpoonup> string" where
  "seats_S1_S2 = [''selected_seats'' \<mapsto> ''S1, S2'']"

definition alice_T100 :: item where
  "alice_T100 =
     [''user_email'' \<mapsto> S ''alice@example.com'',
      ''booking_date'' \<mapsto> S ''2024-05-21T10:30:00.000000'',
      ''booking_id'' \<mapsto> S ''id-9'',
      ''item_id'' \<mapsto> S ''T100'',
      ''travel_date'' \<mapsto> S ''2024-06-01'',
      ''seats_display'' \<mapsto> S ''S3'']"

definition cancel_form :: "string \<rightharpoonup> string" where
  "cancel_form = [''booking_id'' \<mapsto> ''id-9'', ''booking_date'' \<mapsto> ''2024-05-21T10:30:00.000000'']"

definition cancel_world :: world where
  "cancel_world = \<lparr>store = [train_T100, alice_T100], session = alice, events = []\<rparr>"

text \<open>
  What a commit does to the persisted records: each is still in the store, or the store
  now holds under its primary key the record stamped by this request.
\<close>

definition kept_or_replaced :: "env \<Rightarrow> item list \<Rightarrow> item list \<Rightarrow> bool" where
  "kept_or_replaced e st st' =
     (\<forall>b\<in>set st.
        b \<in> set st'
        \<or> (\<exists>r\<in>set st'. primary_key r = primary_key b
               \<and> r ''booking_date'' = Some (S (now e))
               \<and> r ''booking_id'' = Some (S (uuid4 e))))"

definition seats_S5 :: "string \<rightharpoonup> string" where
  "seats_S5 = [''selected_seats'' \<mapsto> ''S5'']"

definition clash_world :: world where
  "clash_world = bus_world\<lparr>store := [alice_T100]\<rparr>"

definition other_world :: world where
  "other_world = bus_world\<lparr>store := [bus_B7]\<rparr>"

definition flight_args :: "string \<rightharpoonup> string" where
  "flight_args =
     [''flight_id'' \<mapsto> ''F9'', ''airline'' \<mapsto> ''IndiGo'', ''flight_number'' \<mapsto> ''6E-201'',
      ''source'' \<mapsto> ''Pune'', ''destination'' \<mapsto> ''Delhi'', ''departure'' \<mapsto> ''07:10'',
      ''arrival'' \<mapsto> ''09:20'', ''date'' \<mapsto> ''2024-06-01'', ''passengers'' \<mapsto> ''2'',
      ''price'' \<mapsto> ''4500'']"

definition hotel_args :: "string \<rightharpoonup> string" where
  "hotel_args =
     [''name'' \<mapsto> ''Sea View'', ''location'' \<mapsto> ''Goa'', ''checkin'' \<mapsto> ''2024-06-01'',
      ''checkout'' \<mapsto> ''2024-06-03'', ''rooms'' \<mapsto> ''1'', ''guests'' \<mapsto> ''2'',
      ''price'' \<mapsto> ''150'', ''rating'' \<mapsto> ''3'']"

definition flight_world :: "item list \<Rightarrow> world" where
  "flight_world st =
     (snd (confirm_flight_details demo_lib flight_args empty_world))\<lparr>store := st\<rparr>"

definition hotel_world :: "item list \<Rightarrow> world" where
  "hotel_world st =
     (snd (confirm_hotel_details demo_lib hotel_args empty_world))\<lparr>store := st\<rparr>"

definition flight_draft :: item where
  "flight_draft =
     [''flight_id'' \<mapsto> S ''F9'', ''airline'' \<mapsto> S ''IndiGo'', ''flight_number'' \<mapsto> S ''6E-201'',
      ''source'' \<mapsto> S ''Pune'', ''destination'' \<mapsto> S ''Delhi'',
      ''departure_time'' \<mapsto> S ''07:10'', ''arrival_time'' \<mapsto> S ''09:20'',
      ''travel_date'' \<mapsto> S ''2024-06-01'', ''num_persons'' \<mapsto> I 2,
      ''price_per_person'' \<mapsto> F (PyFloat 4500 0), ''total_price'' \<mapsto> F (PyFloat 9000 0)]"

definition hotel_draft :: item where
  "hotel_draft =
     [''name'' \<mapsto> S ''Sea View'', ''location'' \<mapsto> S ''Goa'',
      ''checkin_date'' \<mapsto> S ''2024-06-01'', ''checkout_date'' \<mapsto> S ''2024-06-03'',
      ''num_rooms'' \<mapsto> I 1, ''num_guests'' \<mapsto> I 2,
      ''price_per_night'' \<mapsto> D (Decimal 150 0), ''rating'' \<mapsto> I 3, ''nights'' \<mapsto> I 2,
      ''total_price'' \<mapsto> D (Decimal 300 0)]"

text \<open>
  The worlds the handlers can reach from the empty store, and what holds in all of them:
  one record per primary key, every stored \<^verbatim>\<open>seats_display\<close> a string, and flight and
  hotel drafts without \<^verbatim>\<open>seats_display\<close>. Login and logout only set and remove the
  session's \<^verbatim>\<open>email\<close> (lines 90 and 103).
\<close>

definition store_wf :: "item list \<Rightarrow> bool" where
  "store_wf st =
     (distinct (map primary_key st) \<and> list_all (\<lambda>b. absent_or_str (b ''seats_display'')) st)"

definition session_wf :: "flask_session \<Rightarrow> bool" where
  "session_wf s =
     ((case pending_flight_booking s of None \<Rightarrow> True | Some d \<Rightarrow> d ''seats_display'' = None)
      \<and> (case pending_hotel_booking s of None \<Rightarrow> True | Some d \<Rightarrow> d ''seats_display'' = None))"

definition world_wf :: "world \<Rightarrow> bool" where
  "world_wf w = (store_wf (store w) \<and> session_wf (session w))"

inductive reachable :: "world \<Rightarrow> bool" where
  start:
    "reachable \<lparr>store = [],
                session = \<lparr>email = None, pending_booking = None,
                            pending_flight_booking = None, pending_hotel_booking = None\<rparr>,
                events = []\<rparr>"
| login: "reachable w \<Longrightarrow> reachable (w\<lparr>session := (session w)\<lparr>email := Some user\<rparr>\<rparr>)"
| logout: "reachable w \<Longrightarrow> reachable (w\<lparr>session := (session w)\<lparr>email := None\<rparr>\<rparr>)"
| train_details: "reachable w \<Longrightarrow> reachable (snd (confirm_train_details lib e args w))"
| train_final: "reachable w \<Longrightarrow> reachable (snd (final_confirm_train_booking lib e w))"
| bus_details: "reachable w \<Longrightarrow> reachable (snd (confirm_bus_details lib args w))"
| bus_seats: "reachable w \<Longrightarrow> reachable (snd (select_bus_seats lib args w))"
| bus_final: "reachable w \<Longrightarrow> reachable (snd (final_confirm_bus_booking lib e form w))"
| flight_details: "reachable w \<Longrightarrow> reachable (snd (confirm_flight_details lib args w))"
| flight_final: "reachable w \<Longrightarrow> reachable (snd (confirm_flight_booking lib e w))"
| hotel_details: "reachable w \<Longrightarrow> reachable (snd (confirm_hotel_details lib args w))"
| hotel_final: "reachable w \<Longrightarrow> reachable (snd (confirm_hotel_booking lib e w))"
| cancel: "reachable w \<Longrightarrow> reachable (snd (cancel_booking form w))"

section \<open>Auxiliary lemmas\<close>

subsection \<open>Strings, seats and sampling\<close>








lemma seat_names_40:
  "seat_names 40 =
     [''S1'', ''S2'', ''S3'', ''S4'', ''S5'', ''S6'', ''S7'', ''S8'', ''S9'', ''S10'',
      ''S11'', ''S12'', ''S13'', ''S14'', ''S15'', ''S16'', ''S17'', ''S18'', ''S19'', ''S20'',
      ''S21'', ''S22'', ''S23'', ''S24'', ''S25'', ''S26'', ''S27'', ''S28'', ''S29'', ''S30'',
      ''S31'', ''S32'', ''S33'', ''S34'', ''S35'', ''S36'', ''S37'', ''S38'', ''S39'', ''S40'']"
  by code_simp

lemma S41_not_bus_seat: "''S41'' \<notin> set (seat_names 40)"
  by (simp add: seat_names_40)

lemma filter_id: "\<forall>x\<in>set xs. P x \<Longrightarrow> filter P xs = xs"
  by (induction xs) auto

subsection \<open>The availability computation\<close>

lemma booked_seats_loop_eq:
  "booked_seats_loop items acc =
     (if list_ex unparsable items then Inl AttributeError
      else Inr (acc \<union> \<Union> (set (map seats_of items))))"
proof (induction items arbitrary: acc)
  case Nil
  then show ?case by simp
next
  case (Cons b bs)
  show ?case
  proof (cases "b ''seats_display''")
    case None
    then show ?thesis using Cons by (simp add: unparsable_def absent_or_str_def seats_of_def)
  next
    case (Some v)
    then show ?thesis using Cons
      by (cases v) (auto simp: unparsable_def absent_or_str_def seats_of_def)
  qed
qed

lemma query_booked_seats_eq:
  "query_booked_seats st (S iid) (S d) =
     (if list_ex unparsable (filter (matches iid d) st) then Inl AttributeError
      else Inr (spec_taken st iid d))"
  by (simp add: query_booked_seats_def query_item_date_def booked_seats_loop_eq spec_taken_def)

lemma seats_parse_iff: "seats_parse st iid d \<longleftrightarrow> \<not> list_ex unparsable (filter (matches iid d) st)"
  by (auto simp add: seats_parse_def unparsable_def list_all_iff list_ex_iff)

lemma store_confirm_train_details:
  "store (snd (confirm_train_details lib e args w)) = store w"
  by (simp add: confirm_train_details_def set_pending_def split: option.splits sum.splits prod.splits)


lemma store_select_bus_seats:
  "store (snd (select_bus_seats lib args w)) = store w"
  by (simp add: select_bus_seats_def set_pending_def split: option.splits sum.splits prod.splits)


lemma computeAvailableSeats_set_cong:
  assumes "set st = set st'"
  shows "computeAvailableSeats st iid d u = computeAvailableSeats st' iid d u"
proof (cases iid)
  case (S i)
  show ?thesis
  proof (cases d)
    case (S t)
    have "set (filter (matches i t) st) = set (filter (matches i t) st')"
      using assms by simp
    then have "list_ex unparsable (filter (matches i t) st) = list_ex unparsable (filter (matches i t) st')"
      and "spec_taken st i t = spec_taken st' i t"
      unfolding list_ex_iff spec_taken_def set_map by simp_all
    then show ?thesis
      using \<open>iid = S i\<close> S by (simp add: computeAvailableSeats_def query_booked_seats_eq)
  qed (simp_all add: S computeAvailableSeats_def query_booked_seats_def query_item_date_def)
qed (simp_all add: computeAvailableSeats_def query_booked_seats_def query_item_date_def)

lemma computeAvailableSeats_skip:
  assumes "b ''seats_display'' = None"
  shows "computeAvailableSeats (xs @ b # ys) iid d u = computeAvailableSeats (xs @ ys) iid d u"
proof (cases iid)
  case (S i)
  show ?thesis
  proof (cases d)
    case (S t)
    have "\<not> unparsable b" and "seats_of b = {}"
      using assms by (simp_all add: unparsable_def absent_or_str_def seats_of_def)
    then have "list_ex unparsable (filter (matches i t) (xs @ b # ys))
                 = list_ex unparsable (filter (matches i t) (xs @ ys))"
      and "spec_taken (xs @ b # ys) i t = spec_taken (xs @ ys) i t"
      by (simp_all add: spec_taken_def)
    then show ?thesis
      using \<open>iid = S i\<close> S by (simp add: computeAvailableSeats_def query_booked_seats_eq)
  qed (simp_all add: S computeAvailableSeats_def query_booked_seats_def query_item_date_def)
qed (simp_all add: computeAvailableSeats_def query_booked_seats_def query_item_date_def)

subsection \<open>The example data\<close>

lemma bus_world_eq:
  "bus_world = \<lparr>store = [], session = alice\<lparr>pending_booking := Some (bus_booking_details bus_args ''alice@example.com'' (Decimal 150 0) 1)\<rparr>, events = []\<rparr>"
  by (simp add: bus_world_def confirm_bus_details_def alice_def parse_price_persons_def parse_Decimal_def parse_int_def demo_lib_def bus_args_def set_pending_def)

lemma bus_S41_store_eq:
  "bus_S41_store =
     [(bus_booking_details bus_args ''alice@example.com'' (Decimal 150 0) 1)
        (''seats_display'' \<mapsto> S ''S41'', ''booking_id'' \<mapsto> S ''id-2'',
         ''booking_date'' \<mapsto> S ''2024-05-21T10:30:00.000000'')]"
  by (simp add: bus_S41_store_def bus_world_eq final_confirm_bus_booking_def alice_def seat_S41_def
      bus_booking_details_def check_bus_seats_def arg_get_def bus_args_def query_booked_seats_def
      query_item_date_def split_seats_def commit_booking_def put_item_def take_pending_def is_str_def
      absent_or_str_def bus_message_def send_sns_notification_def demo_env_def)

lemma spec_taken_bus_S41: "spec_taken bus_S41_store ''B7'' ''2024-06-01'' = {''S41''}"
  by (simp add: bus_S41_store_eq spec_taken_def matches_def bus_booking_details_def arg_get_def
      bus_args_def seats_of_def split_seats_def)

subsection \<open>The handlers\<close>

lemma put_item_Inr:
  "put_item it st = Inr st' \<Longrightarrow> st' = filter (\<lambda>b. primary_key b \<noteq> primary_key it) st @ [it]"
  by (simp add: put_item_def split: if_splits)

lemma commit_booking_success:
  assumes "fst (commit_booking rec subject message w) = Inr ()"
  shows "\<exists>msg. message = Some msg
         \<and> put_item rec (store w) = Inr (filter (\<lambda>b. primary_key b \<noteq> primary_key rec) (store w) @ [rec])
         \<and> snd (commit_booking rec subject message w) =
             w\<lparr>store := filter (\<lambda>b. primary_key b \<noteq> primary_key rec) (store w) @ [rec],
               events := events w @ [PutItem rec, Publish subject msg]\<rparr>"
  using assms
  by (auto simp add: commit_booking_def send_sns_notification_def put_item_def
      split: sum.splits option.splits if_splits)

lemma commit_booking_store:
  "store (snd (commit_booking rec subject message w)) = store w
   \<or> store (snd (commit_booking rec subject message w))
        = filter (\<lambda>b. primary_key b \<noteq> primary_key rec) (store w) @ [rec]"
  by (auto simp add: commit_booking_def send_sns_notification_def put_item_def
      split: sum.splits option.splits if_splits)

lemma allocate_train_seats_Inr:
  assumes "allocate_train_seats e st booking_data = Inr rec"
  shows "\<exists>item_id travel_date available n.
           booking_data ''item_id'' = Some item_id
         \<and> booking_data ''travel_date'' = Some travel_date
         \<and> computeAvailableSeats st item_id travel_date (seat_names 100) = Inr available
         \<and> booking_data ''num_persons'' = Some (I n)
         \<and> 0 \<le> n \<and> n \<le> int (length available)
         \<and> rec = booking_data
               (''seats_display'' \<mapsto> S (join_seats (sample_from (rng e) 0 available (nat n))),
                ''booking_id'' \<mapsto> S (uuid4 e),
                ''booking_date'' \<mapsto> S (now e))"
  using assms
  by (auto simp add: allocate_train_seats_def sample_count_def random_sample_def
      split: option.splits sum.splits attr.splits if_splits)







lemma computeAvailableSeats_empty_store:
  "computeAvailableSeats [] (S iid) (S d) u = Inr u"
  by (simp add: computeAvailableSeats_def query_booked_seats_def query_item_date_def)





lemma five_seats_left:
  "computeAvailableSeats [full_T100] (S ''T100'') (S ''2024-06-01'') (seat_names 100)
     = Inr [''S96'', ''S97'', ''S98'', ''S99'', ''S100'']"
  by code_simp

lemma delete_item_distinct:
  assumes "rec \<in> set st" and "primary_key rec = (Some (S user), Some (S bd))"
    and "distinct (map primary_key st)"
  shows "delete_item user bd st = [b \<leftarrow> st. b \<noteq> rec]"
proof -
  have inj: "inj_on primary_key (set st)"
    using assms(3) by (simp add: distinct_map)
  have "primary_key b \<noteq> (Some (S user), Some (S bd)) \<longleftrightarrow> b \<noteq> rec" if "b \<in> set st" for b
    using inj that assms(1,2) by (metis inj_onD)
  then show ?thesis
    unfolding delete_item_def by (intro filter_cong) auto
qed

lemma filter_neq_absent: "rec \<notin> set st \<Longrightarrow> [b \<leftarrow> st. b \<noteq> rec] = st"
  by (induction st) auto

lemma length_remove_distinct:
  "distinct st \<Longrightarrow> rec \<in> set st \<Longrightarrow> length [b \<leftarrow> st. b \<noteq> rec] + 1 = length st"
  by (induction st) (auto simp add: filter_neq_absent)

lemma spec_taken_remove:
  assumes "rec \<in> set st"
  shows "spec_taken st i t
           = spec_taken [b \<leftarrow> st. b \<noteq> rec] i t \<union> (if matches i t rec then seats_of rec else {})"
  using assms by (auto simp add: spec_taken_def)

lemma filter_matches_remove:
  "\<not> matches i t rec \<Longrightarrow> filter (matches i t) [b \<leftarrow> st. b \<noteq> rec] = filter (matches i t) st"
  by (induction st) auto

lemma computeAvailableSeats_remove_other:
  "\<not> matches i t rec \<Longrightarrow>
     computeAvailableSeats [b \<leftarrow> st. b \<noteq> rec] (S i) (S t) u = computeAvailableSeats st (S i) (S t) u"
proof -
  assume "\<not> matches i t rec"
  then have "filter (matches i t) [b \<leftarrow> st. b \<noteq> rec] = filter (matches i t) st"
    by (rule filter_matches_remove)
  then show ?thesis
    unfolding computeAvailableSeats_def query_booked_seats_def query_item_date_def
    by (simp only: attr.case)
qed

lemma computeAvailableSeats_remove:
  assumes "computeAvailableSeats st (S i) (S t) u = Inr available"
  shows "\<exists>available'. computeAvailableSeats [b \<leftarrow> st. b \<noteq> rec] (S i) (S t) u = Inr available'
           \<and> set available \<subseteq> set available' \<and> set available' \<subseteq> set available \<union> seats_of rec"
proof -
  have parse: "\<not> list_ex unparsable (filter (matches i t) st)"
    and av: "available = [seat \<leftarrow> u. seat \<notin> spec_taken st i t]"
    using assms by (auto simp add: computeAvailableSeats_def query_booked_seats_eq split: if_splits)
  have parse': "\<not> list_ex unparsable (filter (matches i t) [b \<leftarrow> st. b \<noteq> rec])"
    using parse by (auto simp add: list_ex_iff)
  have sub: "spec_taken [b \<leftarrow> st. b \<noteq> rec] i t \<subseteq> spec_taken st i t"
    and sup: "spec_taken st i t \<subseteq> spec_taken [b \<leftarrow> st. b \<noteq> rec] i t \<union> seats_of rec"
    by (auto simp add: spec_taken_def)
  have "computeAvailableSeats [b \<leftarrow> st. b \<noteq> rec] (S i) (S t) u
          = Inr [seat \<leftarrow> u. seat \<notin> spec_taken [b \<leftarrow> st. b \<noteq> rec] i t]"
    using parse' by (simp add: computeAvailableSeats_def query_booked_seats_eq)
  moreover have "set available \<subseteq> set [seat \<leftarrow> u. seat \<notin> spec_taken [b \<leftarrow> st. b \<noteq> rec] i t]"
    using sub av by auto
  moreover have "set [seat \<leftarrow> u. seat \<notin> spec_taken [b \<leftarrow> st. b \<noteq> rec] i t]
                   \<subseteq> set available \<union> seats_of rec"
    using sup av by auto
  ultimately show ?thesis by blast
qed

lemma train_T100_neq_alice_T100: "train_T100 \<noteq> alice_T100"
proof
  assume "train_T100 = alice_T100"
  then have "train_T100 ''user_email'' = alice_T100 ''user_email''" by simp
  then show False by (simp add: train_T100_def alice_T100_def)
qed

subsection \<open>Commits, flights and hotels\<close>

lemma kept_or_replaced_same: "kept_or_replaced e st st"
  by (simp add: kept_or_replaced_def)

lemma kept_or_replaced_put:
  assumes "rec ''booking_date'' = Some (S (now e))" and "rec ''booking_id'' = Some (S (uuid4 e))"
  shows "kept_or_replaced e st (filter (\<lambda>b. primary_key b \<noteq> primary_key rec) st @ [rec])"
  unfolding kept_or_replaced_def
proof
  fix b assume "b \<in> set st"
  show "b \<in> set (filter (\<lambda>b. primary_key b \<noteq> primary_key rec) st @ [rec])
        \<or> (\<exists>r\<in>set (filter (\<lambda>b. primary_key b \<noteq> primary_key rec) st @ [rec]).
              primary_key r = primary_key b \<and> r ''booking_date'' = Some (S (now e))
              \<and> r ''booking_id'' = Some (S (uuid4 e)))"
  proof (cases "primary_key b = primary_key rec")
    case True
    then show ?thesis using assms by auto
  next
    case False
    then show ?thesis using \<open>b \<in> set st\<close> by simp
  qed
qed

lemma kept_or_replaced_commit:
  assumes "rec ''booking_date'' = Some (S (now e))" and "rec ''booking_id'' = Some (S (uuid4 e))"
  shows "kept_or_replaced e (store w) (store (snd (commit_booking rec subject message w)))"
  using commit_booking_store[of rec subject message w] kept_or_replaced_same
    kept_or_replaced_put[OF assms]
  by metis

lemma allocate_train_seats_stamp:
  "allocate_train_seats e st booking_data = Inr rec \<Longrightarrow>
     rec ''booking_date'' = Some (S (now e)) \<and> rec ''booking_id'' = Some (S (uuid4 e))"
  by (drule allocate_train_seats_Inr) auto

lemma check_bus_seats_stamp:
  "check_bus_seats e st booking selected = Inr rec \<Longrightarrow>
     rec ''booking_date'' = Some (S (now e)) \<and> rec ''booking_id'' = Some (S (uuid4 e))"
  by (auto simp add: check_bus_seats_def split: option.splits sum.splits if_splits)

lemma flight_record_Inr:
  "flight_record lib e user booking = Inr rec \<Longrightarrow>
     \<exists>p t. rec = booking
           (''booking_type'' \<mapsto> S ''flight'', ''user_email'' \<mapsto> S user,
            ''booking_date'' \<mapsto> S (now e), ''booking_id'' \<mapsto> S (uuid4 e),
            ''price_per_person'' \<mapsto> D p, ''total_price'' \<mapsto> D t)"
  by (auto simp add: flight_record_def split: sum.splits)

lemma hotel_record_Inr:
  "hotel_record lib e user booking = Inr rec \<Longrightarrow>
     \<exists>p t. rec = booking
           (''booking_type'' \<mapsto> S ''hotel'', ''user_email'' \<mapsto> S user,
            ''booking_date'' \<mapsto> S (now e), ''booking_id'' \<mapsto> S (uuid4 e),
            ''price_per_night'' \<mapsto> D p, ''total_price'' \<mapsto> D t)"
  by (auto simp add: hotel_record_def split: sum.splits)

lemma flight_record_stamp:
  "flight_record lib e user booking = Inr rec \<Longrightarrow>
     rec ''booking_date'' = Some (S (now e)) \<and> rec ''booking_id'' = Some (S (uuid4 e))"
  by (drule flight_record_Inr) auto

lemma hotel_record_stamp:
  "hotel_record lib e user booking = Inr rec \<Longrightarrow>
     rec ''booking_date'' = Some (S (now e)) \<and> rec ''booking_id'' = Some (S (uuid4 e))"
  by (drule hotel_record_Inr) auto

lemma store_take_pending: "store (take_pending w) = store w"
  by (simp add: take_pending_def)

lemma kept_train:
  "kept_or_replaced e (store w) (store (snd (final_confirm_train_booking lib e w)))"
proof (cases "\<exists>user bd rec. email (session w) = Some user \<and> pending_booking (session w) = Some bd
     \<and> bd \<noteq> Map.empty \<and> allocate_train_seats e (store w) bd = Inr rec")
  case True
  then obtain user bd rec where h: "email (session w) = Some user"
    "pending_booking (session w) = Some bd" "bd \<noteq> Map.empty"
    "allocate_train_seats e (store w) bd = Inr rec" by blast
  have "snd (final_confirm_train_booking lib e w)
          = snd (commit_booking rec ''Train Booking Confirmed'' (train_message lib rec) (take_pending w))"
    using h by (simp add: final_confirm_train_booking_def)
  then show ?thesis
    using kept_or_replaced_commit[of rec e "take_pending w"] allocate_train_seats_stamp[OF h(4)]
    by (simp add: store_take_pending)
next
  case False
  then have "store (snd (final_confirm_train_booking lib e w)) = store w"
    by (auto simp add: final_confirm_train_booking_def store_take_pending
        split: option.splits sum.splits)
  then show ?thesis by (simp add: kept_or_replaced_same)
qed

lemma kept_bus:
  "kept_or_replaced e (store w) (store (snd (final_confirm_bus_booking lib e form w)))"
proof (cases "\<exists>user bd sel rec. email (session w) = Some user \<and> pending_booking (session w) = Some bd
     \<and> form ''selected_seats'' = Some sel \<and> bd \<noteq> Map.empty \<and> sel \<noteq> []
     \<and> check_bus_seats e (store w) bd sel = Inr rec")
  case True
  then obtain user bd sel rec where h: "email (session w) = Some user"
    "pending_booking (session w) = Some bd" "form ''selected_seats'' = Some sel"
    "bd \<noteq> Map.empty" "sel \<noteq> []" "check_bus_seats e (store w) bd sel = Inr rec" by blast
  have "snd (final_confirm_bus_booking lib e form w)
          = snd (commit_booking rec ''Bus Booking Confirmed'' (bus_message lib rec) (take_pending w))"
    using h by (simp add: final_confirm_bus_booking_def)
  then show ?thesis
    using kept_or_replaced_commit[of rec e "take_pending w"] check_bus_seats_stamp[OF h(6)]
    by (simp add: store_take_pending)
next
  case False
  then have "store (snd (final_confirm_bus_booking lib e form w)) = store w"
    by (auto simp add: final_confirm_bus_booking_def store_take_pending
        split: option.splits sum.splits)
  then show ?thesis by (simp add: kept_or_replaced_same)
qed

lemma kept_flight:
  "kept_or_replaced e (store w) (store (snd (confirm_flight_booking lib e w)))"
proof (cases "\<exists>user bd rec. email (session w) = Some user
     \<and> pending_flight_booking (session w) = Some bd
     \<and> bd \<noteq> Map.empty \<and> flight_record lib e user bd = Inr rec")
  case True
  then obtain user bd rec where h: "email (session w) = Some user"
    "pending_flight_booking (session w) = Some bd" "bd \<noteq> Map.empty"
    "flight_record lib e user bd = Inr rec" by blast
  have "snd (confirm_flight_booking lib e w)
          = snd (commit_booking rec ''Flight Booking Confirmed'' (flight_message lib rec)
                   (w\<lparr>session := (session w)\<lparr>pending_flight_booking := None\<rparr>\<rparr>))"
    using h by (simp add: confirm_flight_booking_def)
  then show ?thesis
    using kept_or_replaced_commit[of rec e "w\<lparr>session := (session w)\<lparr>pending_flight_booking := None\<rparr>\<rparr>"]
      flight_record_stamp[OF h(4)]
    by simp
next
  case False
  then have "store (snd (confirm_flight_booking lib e w)) = store w"
    by (auto simp add: confirm_flight_booking_def split: option.splits sum.splits)
  then show ?thesis by (simp add: kept_or_replaced_same)
qed

lemma kept_hotel:
  "kept_or_replaced e (store w) (store (snd (confirm_hotel_booking lib e w)))"
proof (cases "\<exists>user bd rec. email (session w) = Some user
     \<and> pending_hotel_booking (session w) = Some bd
     \<and> bd \<noteq> Map.empty \<and> hotel_record lib e user bd = Inr rec")
  case True
  then obtain user bd rec where h: "email (session w) = Some user"
    "pending_hotel_booking (session w) = Some bd" "bd \<noteq> Map.empty"
    "hotel_record lib e user bd = Inr rec" by blast
  have "snd (confirm_hotel_booking lib e w)
          = snd (commit_booking rec ''Hotel Booking Confirmed'' (hotel_message lib rec)
                   (w\<lparr>session := (session w)\<lparr>pending_hotel_booking := None\<rparr>\<rparr>))"
    using h by (simp add: confirm_hotel_booking_def)
  then show ?thesis
    using kept_or_replaced_commit[of rec e "w\<lparr>session := (session w)\<lparr>pending_hotel_booking := None\<rparr>\<rparr>"]
      hotel_record_stamp[OF h(4)]
    by simp
next
  case False
  then have "store (snd (confirm_hotel_booking lib e w)) = store w"
    by (auto simp add: confirm_hotel_booking_def split: option.splits sum.splits)
  then show ?thesis by (simp add: kept_or_replaced_same)
qed

lemma clash_store:
  "store (snd (final_confirm_bus_booking demo_lib demo_env seats_S5 clash_world))
     = [(bus_booking_details bus_args ''alice@example.com'' (Decimal 150 0) 1)
          (''seats_display'' \<mapsto> S ''S5'', ''booking_id'' \<mapsto> S ''id-2'',
           ''booking_date'' \<mapsto> S ''2024-05-21T10:30:00.000000'')]"
  by (simp add: clash_world_def bus_world_eq final_confirm_bus_booking_def alice_def seats_S5_def
      bus_booking_details_def check_bus_seats_def arg_get_def bus_args_def query_booked_seats_def
      query_item_date_def matches_def alice_T100_def split_seats_def commit_booking_def put_item_def
      take_pending_def is_str_def absent_or_str_def bus_message_def send_sns_notification_def
      demo_env_def primary_key_def)

lemma clash_succeeds:
  "fst (final_confirm_bus_booking demo_lib demo_env seats_S5 clash_world) = Inr ()"
  by (simp add: clash_world_def bus_world_eq final_confirm_bus_booking_def alice_def seats_S5_def
      bus_booking_details_def check_bus_seats_def arg_get_def bus_args_def query_booked_seats_def
      query_item_date_def matches_def alice_T100_def split_seats_def commit_booking_def put_item_def
      take_pending_def is_str_def absent_or_str_def bus_message_def)

lemma confirm_flight_details_success:
  assumes "fst (confirm_flight_details lib args w) = Inr ()"
  shows "\<exists>booking. flight_booking_details lib args = Inr booking
           \<and> pending_flight_booking (session (snd (confirm_flight_details lib args w))) = Some booking"
  using assms
  by (auto simp add: confirm_flight_details_def split: option.splits sum.splits)

lemma confirm_hotel_details_success:
  assumes "fst (confirm_hotel_details lib args w) = Inr ()"
  shows "\<exists>booking. hotel_booking_details lib args = Inr booking
           \<and> pending_hotel_booking (session (snd (confirm_hotel_details lib args w))) = Some booking"
  using assms
  by (auto simp add: confirm_hotel_details_def split: option.splits sum.splits)

lemma flight_booking_details_keys:
  assumes "flight_booking_details lib args = Inr booking"
  shows "booking ''item_id'' = None \<and> booking ''seats_display'' = None
       \<and> (\<exists>f. args ''flight_id'' = Some f \<and> booking ''flight_id'' = Some (S f))
       \<and> (\<exists>d. args ''date'' = Some d \<and> booking ''travel_date'' = Some (S d))"
  using assms
  by (auto simp add: flight_booking_details_def flight_strings_def
      split: option.splits sum.splits Option.bind_splits)

lemma hotel_booking_details_keys:
  assumes "hotel_booking_details lib args = Inr booking"
  shows "booking ''item_id'' = None \<and> booking ''travel_date'' = None
       \<and> booking ''seats_display'' = None"
  using assms
  by (auto simp add: hotel_booking_details_def split: sum.splits prod.splits)

lemma confirm_flight_booking_success:
  assumes "fst (confirm_flight_booking lib e w) = Inr ()"
  shows "\<exists>user booking rec.
           email (session w) = Some user
         \<and> pending_flight_booking (session w) = Some booking
         \<and> flight_record lib e user booking = Inr rec
         \<and> fst (commit_booking rec ''Flight Booking Confirmed'' (flight_message lib rec)
                  (w\<lparr>session := (session w)\<lparr>pending_flight_booking := None\<rparr>\<rparr>)) = Inr ()
         \<and> snd (confirm_flight_booking lib e w)
             = snd (commit_booking rec ''Flight Booking Confirmed'' (flight_message lib rec)
                     (w\<lparr>session := (session w)\<lparr>pending_flight_booking := None\<rparr>\<rparr>))"
  using assms
  by (auto simp add: confirm_flight_booking_def split: option.splits sum.splits if_splits)

lemma confirm_hotel_booking_success:
  assumes "fst (confirm_hotel_booking lib e w) = Inr ()"
  shows "\<exists>user booking rec.
           email (session w) = Some user
         \<and> pending_hotel_booking (session w) = Some booking
         \<and> hotel_record lib e user booking = Inr rec
         \<and> fst (commit_booking rec ''Hotel Booking Confirmed'' (hotel_message lib rec)
                  (w\<lparr>session := (session w)\<lparr>pending_hotel_booking := None\<rparr>\<rparr>)) = Inr ()
         \<and> snd (confirm_hotel_booking lib e w)
             = snd (commit_booking rec ''Hotel Booking Confirmed'' (hotel_message lib rec)
                     (w\<lparr>session := (session w)\<lparr>pending_hotel_booking := None\<rparr>\<rparr>))"
  using assms
  by (auto simp add: confirm_hotel_booking_def split: option.splits sum.splits if_splits)

lemma computeAvailableSeats_fresh_unindexed:
  assumes "\<forall>b\<in>set st. primary_key b \<noteq> primary_key rec" and "rec ''seats_display'' = None"
  shows "computeAvailableSeats (filter (\<lambda>b. primary_key b \<noteq> primary_key rec) st @ [rec]) iid d u
           = computeAvailableSeats st iid d u"
proof -
  have "filter (\<lambda>b. primary_key b \<noteq> primary_key rec) st = st"
    using assms(1) by (intro filter_id) simp
  then show ?thesis
    using computeAvailableSeats_skip[of rec st "[]" iid d u] assms(2) by simp
qed

lemma flight_details_eq: "flight_booking_details demo_lib flight_args = Inr flight_draft"
  by (simp add: flight_booking_details_def flight_strings_def flight_args_def demo_lib_def
      flight_draft_def)

lemma flight_details_ok: "fst (confirm_flight_details demo_lib flight_args empty_world) = Inr ()"
  by (simp add: confirm_flight_details_def empty_world_def alice_def flight_details_eq)

lemma flight_world_eq:
  "flight_world st =
     \<lparr>store = st, session = alice\<lparr>pending_flight_booking := Some flight_draft\<rparr>, events = []\<rparr>"
  by (simp add: flight_world_def confirm_flight_details_def empty_world_def alice_def
      flight_details_eq)

lemma show_4500: "show_int 4500 = ''4500''" and show_9000: "show_int 9000 = ''9000''"
  and show_150: "show_int 150 = ''150''" and show_300: "show_int 300 = ''300''"
  by (simp_all add: show_int_def show_nat.simps digit_char_def)

lemma flight_record_eq:
  "flight_record demo_lib demo_env ''alice@example.com'' flight_draft
     = Inr (flight_draft
             (''booking_type'' \<mapsto> S ''flight'', ''user_email'' \<mapsto> S ''alice@example.com'',
              ''booking_date'' \<mapsto> S ''2024-05-21T10:30:00.000000'', ''booking_id'' \<mapsto> S ''id-2'',
              ''price_per_person'' \<mapsto> D (Decimal 45000 (- 1)),
              ''total_price'' \<mapsto> D (Decimal 90000 (- 1))))"
  by (simp add: flight_record_def to_Decimal_def flight_draft_def py_str_def demo_lib_def
      show_4500 show_9000 demo_env_def)

lemma flight_draft_nonempty: "flight_draft \<noteq> Map.empty"
proof
  assume "flight_draft = Map.empty"
  then have "flight_draft ''flight_id'' = Map.empty ''flight_id''" by (rule arg_cong)
  then show False by (simp add: flight_draft_def)
qed

lemma flight_finalize_ok:
  "fst (confirm_flight_booking demo_lib demo_env (flight_world st)) = Inr ()"
  apply (simp add: flight_world_eq confirm_flight_booking_def alice_def flight_draft_nonempty
      flight_record_eq)
  apply (simp add: commit_booking_def put_item_def is_str_def absent_or_str_def
      flight_message_def flight_draft_def)
  done

lemma flight_finalize_store:
  "store (snd (confirm_flight_booking demo_lib demo_env (flight_world st)))
     = filter (\<lambda>b. primary_key b
                  \<noteq> (Some (S ''alice@example.com''), Some (S ''2024-05-21T10:30:00.000000''))) st
       @ [flight_draft
             (''booking_type'' \<mapsto> S ''flight'', ''user_email'' \<mapsto> S ''alice@example.com'',
              ''booking_date'' \<mapsto> S ''2024-05-21T10:30:00.000000'', ''booking_id'' \<mapsto> S ''id-2'',
              ''price_per_person'' \<mapsto> D (Decimal 45000 (- 1)),
              ''total_price'' \<mapsto> D (Decimal 90000 (- 1)))]"
  apply (simp add: flight_world_eq confirm_flight_booking_def alice_def flight_draft_nonempty
      flight_record_eq)
  apply (simp add: commit_booking_def put_item_def is_str_def absent_or_str_def
      flight_message_def flight_draft_def send_sns_notification_def primary_key_def)
  done

lemma four_seats_before:
  "computeAvailableSeats [alice_T100] (S ''T100'') (S ''2024-06-01'') (seat_names 5)
     = Inr [''S1'', ''S2'', ''S4'', ''S5'']"
  by code_simp

lemma hotel_details_eq: "hotel_booking_details demo_lib hotel_args = Inr hotel_draft"
  by (simp add: hotel_booking_details_def hotel_numbers_def nights_between_def parse_int_def
      parse_Decimal_def hotel_args_def demo_lib_def hotel_draft_def arg_get_def dec_times_int_def)

lemma hotel_details_ok: "fst (confirm_hotel_details demo_lib hotel_args empty_world) = Inr ()"
  by (simp add: confirm_hotel_details_def empty_world_def alice_def hotel_details_eq)

lemma hotel_world_eq:
  "hotel_world st =
     \<lparr>store = st, session = alice\<lparr>pending_hotel_booking := Some hotel_draft\<rparr>, events = []\<rparr>"
  by (simp add: hotel_world_def confirm_hotel_details_def empty_world_def alice_def
      hotel_details_eq)

lemma hotel_record_eq:
  "hotel_record demo_lib demo_env ''alice@example.com'' hotel_draft
     = Inr (hotel_draft
             (''booking_type'' \<mapsto> S ''hotel'', ''user_email'' \<mapsto> S ''alice@example.com'',
              ''booking_date'' \<mapsto> S ''2024-05-21T10:30:00.000000'', ''booking_id'' \<mapsto> S ''id-2'',
              ''price_per_night'' \<mapsto> D (Decimal 150 0),
              ''total_price'' \<mapsto> D (Decimal 300 0)))"
  by (simp add: hotel_record_def to_Decimal_def hotel_draft_def py_str_def demo_lib_def
      show_150 show_300 demo_env_def)

lemma hotel_draft_nonempty: "hotel_draft \<noteq> Map.empty"
proof
  assume "hotel_draft = Map.empty"
  then have "hotel_draft ''name'' = Map.empty ''name''" by (rule arg_cong)
  then show False by (simp add: hotel_draft_def)
qed

lemma hotel_finalize_ok:
  "fst (confirm_hotel_booking demo_lib demo_env (hotel_world st)) = Inr ()"
  apply (simp add: hotel_world_eq confirm_hotel_booking_def alice_def hotel_draft_nonempty
      hotel_record_eq)
  apply (simp add: commit_booking_def put_item_def is_str_def absent_or_str_def
      hotel_message_def hotel_draft_def)
  done

lemma three_seats_left:
  "computeAvailableSeats [train_T100] (S ''T100'') (S ''2024-06-01'') (seat_names 5)
     = Inr [''S3'', ''S4'', ''S5'']"
  by code_simp

lemma bob_key_differs:
  "primary_key train_T100 \<noteq> (Some (S ''alice@example.com''), Some (S (now demo_env)))"
  by (simp add: primary_key_def train_T100_def)

subsection \<open>Reachable worlds\<close>

lemma store_wf_put:
  assumes "store_wf st" and "absent_or_str (rec ''seats_display'')"
  shows "store_wf (filter (\<lambda>b. primary_key b \<noteq> primary_key rec) st @ [rec])"
proof -
  have "distinct (map primary_key (filter (\<lambda>b. primary_key b \<noteq> primary_key rec) st))"
    using assms(1) by (simp add: store_wf_def distinct_map_filter)
  then show ?thesis
    using assms by (auto simp add: store_wf_def list_all_iff)
qed

lemma store_wf_commit:
  assumes "store_wf (store w)" and "absent_or_str (rec ''seats_display'')"
  shows "store_wf (store (snd (commit_booking rec subject message w)))"
  using commit_booking_store[of rec subject message w] assms store_wf_put by metis

lemma session_commit:
  "session (snd (commit_booking rec subject message w)) = session w"
  by (simp add: commit_booking_def send_sns_notification_def split: sum.splits option.splits)

lemma store_wf_delete: "store_wf st \<Longrightarrow> store_wf (delete_item user bd st)"
  by (auto simp add: store_wf_def delete_item_def distinct_map_filter list_all_iff)

lemma wf_train_details: "world_wf w \<Longrightarrow> world_wf (snd (confirm_train_details lib e args w))"
  by (auto simp add: world_wf_def session_wf_def confirm_train_details_def set_pending_def
      split: option.splits sum.splits prod.splits)

lemma wf_bus_details: "world_wf w \<Longrightarrow> world_wf (snd (confirm_bus_details lib args w))"
  by (auto simp add: world_wf_def session_wf_def confirm_bus_details_def set_pending_def
      split: option.splits sum.splits prod.splits)

lemma wf_bus_seats: "world_wf w \<Longrightarrow> world_wf (snd (select_bus_seats lib args w))"
  by (auto simp add: world_wf_def session_wf_def select_bus_seats_def set_pending_def
      split: option.splits sum.splits prod.splits)

lemma wf_take_pending: "world_wf w \<Longrightarrow> world_wf (take_pending w)"
  by (simp add: world_wf_def session_wf_def take_pending_def)

lemma wf_commit:
  "world_wf w \<Longrightarrow> absent_or_str (rec ''seats_display'') \<Longrightarrow>
     world_wf (snd (commit_booking rec subject message w))"
  by (simp add: world_wf_def store_wf_commit session_commit)

lemma allocate_train_seats_seats:
  "allocate_train_seats e st bd = Inr rec \<Longrightarrow> absent_or_str (rec ''seats_display'')"
  by (drule allocate_train_seats_Inr) (auto simp add: absent_or_str_def)

lemma check_bus_seats_seats:
  "check_bus_seats e st bd sel = Inr rec \<Longrightarrow> absent_or_str (rec ''seats_display'')"
  by (auto simp add: check_bus_seats_def absent_or_str_def split: option.splits sum.splits if_splits)

lemma wf_train_final: "world_wf w \<Longrightarrow> world_wf (snd (final_confirm_train_booking lib e w))"
  by (auto simp add: final_confirm_train_booking_def wf_take_pending wf_commit
      allocate_train_seats_seats split: option.splits sum.splits)

lemma wf_bus_final: "world_wf w \<Longrightarrow> world_wf (snd (final_confirm_bus_booking lib e form w))"
  by (auto simp add: final_confirm_bus_booking_def wf_take_pending wf_commit
      check_bus_seats_seats split: option.splits sum.splits)

lemma wf_flight_details: "world_wf w \<Longrightarrow> world_wf (snd (confirm_flight_details lib args w))"
  by (auto simp add: world_wf_def session_wf_def confirm_flight_details_def
      dest: flight_booking_details_keys split: option.splits sum.splits)

lemma wf_hotel_details: "world_wf w \<Longrightarrow> world_wf (snd (confirm_hotel_details lib args w))"
  by (auto simp add: world_wf_def session_wf_def confirm_hotel_details_def
      dest: hotel_booking_details_keys split: option.splits sum.splits)

lemma wf_drop_flight:
  "world_wf w \<Longrightarrow> world_wf (w\<lparr>session := (session w)\<lparr>pending_flight_booking := None\<rparr>\<rparr>)"
  by (simp add: world_wf_def session_wf_def)

lemma wf_drop_hotel:
  "world_wf w \<Longrightarrow> world_wf (w\<lparr>session := (session w)\<lparr>pending_hotel_booking := None\<rparr>\<rparr>)"
  by (simp add: world_wf_def session_wf_def)

lemma flight_record_seats:
  "flight_record lib e user bd = Inr rec \<Longrightarrow> rec ''seats_display'' = bd ''seats_display''"
  by (drule flight_record_Inr) auto

lemma hotel_record_seats:
  "hotel_record lib e user bd = Inr rec \<Longrightarrow> rec ''seats_display'' = bd ''seats_display''"
  by (drule hotel_record_Inr) auto

lemma wf_flight_final:
  assumes "world_wf w"
  shows "world_wf (snd (confirm_flight_booking lib e w))"
proof -
  have "absent_or_str (rec ''seats_display'')"
    if "pending_flight_booking (session w) = Some bd" "flight_record lib e user bd = Inr rec"
    for bd user rec
    using assms that flight_record_seats[OF that(2)]
    by (simp add: world_wf_def session_wf_def absent_or_str_def)
  then show ?thesis
    using assms wf_drop_flight[OF assms]
    by (auto simp add: confirm_flight_booking_def wf_commit split: option.splits sum.splits)
qed

lemma wf_hotel_final:
  assumes "world_wf w"
  shows "world_wf (snd (confirm_hotel_booking lib e w))"
proof -
  have "absent_or_str (rec ''seats_display'')"
    if "pending_hotel_booking (session w) = Some bd" "hotel_record lib e user bd = Inr rec"
    for bd user rec
    using assms that hotel_record_seats[OF that(2)]
    by (simp add: world_wf_def session_wf_def absent_or_str_def)
  then show ?thesis
    using assms wf_drop_hotel[OF assms]
    by (auto simp add: confirm_hotel_booking_def wf_commit split: option.splits sum.splits)
qed

lemma wf_cancel: "world_wf w \<Longrightarrow> world_wf (snd (cancel_booking form w))"
  by (auto simp add: world_wf_def cancel_booking_def store_wf_delete split: option.splits)

lemma reachable_wf: "reachable w \<Longrightarrow> world_wf w"
proof (induction rule: reachable.induct)
  case start
  show ?case by (simp add: world_wf_def store_wf_def session_wf_def)
next
  case (login w user)
  then show ?case by (simp add: world_wf_def session_wf_def)
next
  case (logout w)
  then show ?case by (simp add: world_wf_def session_wf_def)
qed (simp_all add: wf_train_details wf_train_final wf_bus_details wf_bus_seats wf_bus_final
    wf_flight_details wf_flight_final wf_hotel_details wf_hotel_final wf_cancel)

lemma reachable_store:
  assumes "reachable w"
  shows "distinct (map primary_key (store w))" and "seats_parse (store w) iid d"
  using reachable_wf[OF assms]
  by (auto simp add: world_wf_def store_wf_def seats_parse_def list_all_iff)

section \<open>The claims\<close>

subsection \<open>Claim C1\<close>



subsection \<open>Claim C2\<close>

text \<open>
  Claim C2, as stated, fails: \<^verbatim>\<open>final_confirm_bus_booking\<close> never recomputes the
  available set; it rejects a request only when a posted seat is among the booked ones.
  On an empty store the posted seat \<^verbatim>\<open>S41\<close>, which is not one of the 40 seats of a bus
  and so not available, is accepted and a record is written.
\<close>

theorem bus_unlisted_seat_accepted:
  "computeAvailableSeats (store bus_world) (S ''B7'') (S ''2024-06-01'') (seat_names 40)
     = Inr (seat_names 40)
   \<and> split_seats ''S41'' = [''S41'']
   \<and> ''S41'' \<notin> set (seat_names 40)
   \<and> fst (final_confirm_bus_booking demo_lib demo_env seat_S41 bus_world) = Inr ()
   \<and> store bus_world = []
   \<and> store (snd (final_confirm_bus_booking demo_lib demo_env seat_S41 bus_world))
       = [(bus_booking_details bus_args ''alice@example.com'' (Decimal 150 0) 1)
            (''seats_display'' \<mapsto> S ''S41'', ''booking_id'' \<mapsto> S ''id-2'',
             ''booking_date'' \<mapsto> S ''2024-05-21T10:30:00.000000'')]"
proof -
  have "fst (final_confirm_bus_booking demo_lib demo_env seat_S41 bus_world) = Inr ()"
    by (simp add: bus_world_eq final_confirm_bus_booking_def alice_def seat_S41_def
        bus_booking_details_def check_bus_seats_def arg_get_def bus_args_def query_booked_seats_def
        query_item_date_def split_seats_def commit_booking_def put_item_def take_pending_def
        is_str_def absent_or_str_def bus_message_def)
  then show ?thesis
    using bus_S41_store_eq S41_not_bus_seat
    by (simp add: bus_S41_store_def bus_world_eq computeAvailableSeats_empty_store split_seats_def)
qed

text \<open>
  Claim C2, amended. For every bus finalize with a pending draft and a posted selection,
  if any requested seat is already taken at finalize time (it is among the parsed
  \<^verbatim>\<open>seats_display\<close> of the records of the draft's item and date), the whole request is
  rejected with \<open>SeatCollision\<close>: the store and the event trace are unchanged, so no
  booking with only the remaining seats is created.
\<close>

theorem bus_collision_rejects_whole_request:
  assumes "email (session w) = Some user"
      and "pending_booking (session w) = Some booking"
      and "form ''selected_seats'' = Some selected"
      and "selected \<noteq> []"
      and "booking ''item_id'' = Some (S iid)"
      and "booking ''travel_date'' = Some (S d)"
      and "seats_parse (store w) iid d"
      and "\<exists>s\<in>set (split_seats selected). s \<in> spec_taken (store w) iid d"
  shows "final_confirm_bus_booking lib e form w = (Inl SeatCollision, take_pending w)
       \<and> store (snd (final_confirm_bus_booking lib e form w)) = store w
       \<and> events (snd (final_confirm_bus_booking lib e form w)) = events w"
proof -
  have ne: "booking \<noteq> Map.empty"
    using assms(5) by auto
  have "query_booked_seats (store w) (S iid) (S d) = Inr (spec_taken (store w) iid d)"
    using assms(7) by (simp add: query_booked_seats_eq seats_parse_iff)
  then have "check_bus_seats e (store w) booking selected = Inl SeatCollision"
    using assms(5,6,8) by (simp add: check_bus_seats_def list_ex_iff)
  then have "final_confirm_bus_booking lib e form w = (Inl SeatCollision, take_pending w)"
    using assms(1-4) ne by (simp add: final_confirm_bus_booking_def)
  then show ?thesis by (simp add: take_pending_def)
qed

text \<open>Claim C2, amended, on a bus whose seat S1 is taken and the request \<^verbatim>\<open>S1, S2\<close>.\<close>

theorem bus_collision_rejects_whole_request_witness:
  "seats_parse [bus_B7] ''B7'' ''2024-06-01''
   \<and> spec_taken [bus_B7] ''B7'' ''2024-06-01'' = {''S1''}
   \<and> split_seats ''S1, S2'' = [''S1'', ''S2'']
   \<and> final_confirm_bus_booking demo_lib demo_env seats_S1_S2 (bus_world\<lparr>store := [bus_B7]\<rparr>)
       = (Inl SeatCollision, take_pending (bus_world\<lparr>store := [bus_B7]\<rparr>))
   \<and> store (snd (final_confirm_bus_booking demo_lib demo_env seats_S1_S2
         (bus_world\<lparr>store := [bus_B7]\<rparr>))) = [bus_B7]"
proof -
  let ?w = "bus_world\<lparr>store := [bus_B7]\<rparr>"
  let ?draft = "bus_booking_details bus_args ''alice@example.com'' (Decimal 150 0) 1"
  have a: "email (session ?w) = Some ''alice@example.com''"
    and b: "pending_booking (session ?w) = Some ?draft"
    by (simp_all add: bus_world_eq alice_def)
  have c: "seats_S1_S2 ''selected_seats'' = Some ''S1, S2''" and c': "''S1, S2'' \<noteq> []"
    by (simp_all add: seats_S1_S2_def)
  have d: "?draft ''item_id'' = Some (S ''B7'')" and f: "?draft ''travel_date'' = Some (S ''2024-06-01'')"
    by (simp_all add: bus_booking_details_def arg_get_def bus_args_def)
  have g: "seats_parse [bus_B7] ''B7'' ''2024-06-01''"
    by (simp add: seats_parse_def matches_def bus_B7_def absent_or_str_def)
  have sp: "split_seats ''S1, S2'' = [''S1'', ''S2'']"
    by (simp add: split_seats_def)
  have tk: "spec_taken [bus_B7] ''B7'' ''2024-06-01'' = {''S1''}"
    by (simp add: spec_taken_def matches_def bus_B7_def seats_of_def split_seats_def)
  have h: "\<exists>s\<in>set (split_seats ''S1, S2''). s \<in> spec_taken (store ?w) ''B7'' ''2024-06-01''"
    by (simp add: sp tk)
  have g': "seats_parse (store ?w) ''B7'' ''2024-06-01''"
    using g by simp
  from bus_collision_rejects_whole_request[where w = "?w" and form = seats_S1_S2 and selected = "''S1, S2''"
      and booking = "?draft" and iid = "''B7''" and d = "''2024-06-01''" and lib = demo_lib
      and e = demo_env, OF a b c c' d f g' h] g tk sp
  show ?thesis
    by (simp add: take_pending_def)
qed

subsection \<open>Claim C3\<close>

text \<open>
  Claim C3. For every train finalize with a pending draft for \<open>n\<close> persons, if the
  available seats recomputed at finalize time are fewer than \<open>n\<close>, the handler fails
  with \<open>InsufficientSeats\<close>; the draft is discarded and neither a record nor an event
  is written.
\<close>

theorem train_shortage_rejected:
  assumes "email (session w) = Some user"
      and "pending_booking (session w) = Some booking_data"
      and "booking_data ''item_id'' = Some item_id"
      and "booking_data ''travel_date'' = Some travel_date"
      and "booking_data ''num_persons'' = Some (I n)"
      and "computeAvailableSeats (store w) item_id travel_date (seat_names 100) = Inr available"
      and "int (length available) < n"
  shows "final_confirm_train_booking lib e w = (Inl InsufficientSeats, take_pending w)
       \<and> store (snd (final_confirm_train_booking lib e w)) = store w
       \<and> events (snd (final_confirm_train_booking lib e w)) = events w"
proof -
  have ne: "booking_data \<noteq> Map.empty"
    using assms(3) by auto
  have "allocate_train_seats e (store w) booking_data = Inl InsufficientSeats"
    using assms by (simp add: allocate_train_seats_def sample_count_def)
  then have "final_confirm_train_booking lib e w = (Inl InsufficientSeats, take_pending w)"
    using assms(1,2) ne by (simp add: final_confirm_train_booking_def)
  then show ?thesis by (simp add: take_pending_def)
qed

text \<open>Claim C3 on the universe of 100 seats with 95 taken and a request for 10 persons.\<close>

theorem train_shortage_rejected_witness:
  "computeAvailableSeats (store shortage_world) (S ''T100'') (S ''2024-06-01'') (seat_names 100)
     = Inr [''S96'', ''S97'', ''S98'', ''S99'', ''S100'']
   \<and> length (split_seats (join_seats (seat_names 95))) = 95
   \<and> final_confirm_train_booking demo_lib demo_env shortage_world
       = (Inl InsufficientSeats, take_pending shortage_world)
   \<and> store (snd (final_confirm_train_booking demo_lib demo_env shortage_world)) = [full_T100]
   \<and> events (snd (final_confirm_train_booking demo_lib demo_env shortage_world)) = []"
proof -
  let ?draft = "train_booking_details train_args ''alice@example.com'' (Decimal 150 0) 10"
  have a: "email (session shortage_world) = Some ''alice@example.com''"
    and b: "pending_booking (session shortage_world) = Some ?draft"
    by (simp_all add: shortage_world_def alice_def)
  have c: "?draft ''item_id'' = Some (S ''T100'')"
    and d: "?draft ''travel_date'' = Some (S ''2024-06-01'')"
    and f: "?draft ''num_persons'' = Some (I 10)"
    by (simp_all add: train_booking_details_def arg_get_def train_args_def)
  have g: "computeAvailableSeats (store shortage_world) (S ''T100'') (S ''2024-06-01'') (seat_names 100)
     = Inr [''S96'', ''S97'', ''S98'', ''S99'', ''S100'']"
    using five_seats_left by (simp add: shortage_world_def)
  have h: "int (length [''S96'', ''S97'', ''S98'', ''S99'', ''S100'']) < 10"
    by simp
  have taken: "length (split_seats (join_seats (seat_names 95))) = 95"
    by code_simp
  from train_shortage_rejected[OF a b c d f g h, of demo_lib demo_env] g taken show ?thesis
    by (simp add: shortage_world_def take_pending_def)
qed

subsection \<open>Claim C4\<close>



subsection \<open>Claim C5\<close>

text \<open>
  Claim C5, as stated, fails: the bus handler stores whatever seat string is posted, so
  after a booking of the seat \<^verbatim>\<open>S41\<close> on a bus of 40 seats the taken set is not part
  of the universe, and the available seats together with the taken ones are more than the
  universe.
\<close>

theorem availability_union_exceeds_universe:
  "computeAvailableSeats bus_S41_store (S ''B7'') (S ''2024-06-01'') (seat_names 40)
     = Inr (seat_names 40)
   \<and> spec_taken bus_S41_store ''B7'' ''2024-06-01'' = {''S41''}
   \<and> set (seat_names 40) \<union> spec_taken bus_S41_store ''B7'' ''2024-06-01'' \<noteq> set (seat_names 40)"
proof -
  have p: "seats_parse bus_S41_store ''B7'' ''2024-06-01''"
    by (simp add: bus_S41_store_eq seats_parse_def absent_or_str_def)
  have "[seat \<leftarrow> seat_names 40. seat \<notin> {''S41''}] = seat_names 40"
    using S41_not_bus_seat by (intro filter_id) auto
  then have "computeAvailableSeats bus_S41_store (S ''B7'') (S ''2024-06-01'') (seat_names 40)
     = Inr (seat_names 40)"
    using p by (simp add: computeAvailableSeats_def query_booked_seats_eq seats_parse_iff spec_taken_bus_S41)
  moreover have "set (seat_names 40) \<union> {''S41''} \<noteq> set (seat_names 40)"
    using S41_not_bus_seat by blast
  ultimately show ?thesis by (simp add: spec_taken_bus_S41)
qed

text \<open>
  Claim C5, amended. For every computed availability result, the available seats and the
  taken set are disjoint, and the available seats together with the taken seats that
  belong to the universe are the universe; the union with the whole taken set is the
  universe exactly when every taken seat belongs to it.
\<close>

theorem availability_partition:
  assumes "computeAvailableSeats st (S iid) (S d) u = Inr avail"
  shows "set avail \<inter> spec_taken st iid d = {}
       \<and> set avail \<union> (spec_taken st iid d \<inter> set u) = set u
       \<and> (set avail \<union> spec_taken st iid d = set u \<longleftrightarrow> spec_taken st iid d \<subseteq> set u)"
proof -
  have "avail = [seat \<leftarrow> u. seat \<notin> spec_taken st iid d]"
    using assms
    by (auto simp add: computeAvailableSeats_def query_booked_seats_eq split: if_splits)
  then show ?thesis by auto
qed

text \<open>Claim C5, amended, on a store with one booking of seats S1 and S2.\<close>

theorem availability_partition_witness:
  "computeAvailableSeats [train_T100] (S ''T100'') (S ''2024-06-01'') (seat_names 5)
     = Inr [''S3'', ''S4'', ''S5'']
   \<and> set [''S3'', ''S4'', ''S5''] \<inter> spec_taken [train_T100] ''T100'' ''2024-06-01'' = {}
   \<and> set [''S3'', ''S4'', ''S5''] \<union> (spec_taken [train_T100] ''T100'' ''2024-06-01'' \<inter> set (seat_names 5))
       = set (seat_names 5)"
proof -
  have h: "computeAvailableSeats [train_T100] (S ''T100'') (S ''2024-06-01'') (seat_names 5)
     = Inr [''S3'', ''S4'', ''S5'']"
    by code_simp
  from availability_partition[OF h] show ?thesis using h by simp
qed

subsection \<open>Claim C6\<close>

text \<open>
  Claim C6. The handlers that compute availability leave the store unchanged, so a second
  computation for the same item, date and universe gives the result of the first; the
  result does not depend on the random source, and it is the same for any two stores that
  hold the same records, whatever the order in which the query returns them.
\<close>

theorem availability_deterministic:
  "computeAvailableSeats (store (snd (confirm_train_details lib e args w))) iid d u
     = computeAvailableSeats (store w) iid d u
   \<and> computeAvailableSeats (store (snd (select_bus_seats lib args w))) iid d u
     = computeAvailableSeats (store w) iid d u
   \<and> (set st = set st' \<longrightarrow>
        computeAvailableSeats st iid d u = computeAvailableSeats st' iid d u)"
proof (intro conjI impI)
  show "computeAvailableSeats (store (snd (confirm_train_details lib e args w))) iid d u
     = computeAvailableSeats (store w) iid d u"
    by (simp only: store_confirm_train_details)
  show "computeAvailableSeats (store (snd (select_bus_seats lib args w))) iid d u
     = computeAvailableSeats (store w) iid d u"
    by (simp only: store_select_bus_seats)
  show "computeAvailableSeats st iid d u = computeAvailableSeats st' iid d u" if "set st = set st'"
    using that by (rule computeAvailableSeats_set_cong)
qed

text \<open>Claim C6 on two stores that hold the same two records in opposite order.\<close>

theorem availability_deterministic_witness:
  "set [train_T100, no_seats_T100] = set [no_seats_T100, train_T100]
   \<and> computeAvailableSeats [train_T100, no_seats_T100] (S ''T100'') (S ''2024-06-01'') (seat_names 5)
     = computeAvailableSeats [no_seats_T100, train_T100] (S ''T100'') (S ''2024-06-01'') (seat_names 5)"
proof -
  have h: "set [train_T100, no_seats_T100] = set [no_seats_T100, train_T100]" by auto
  have "computeAvailableSeats [train_T100, no_seats_T100] (S ''T100'') (S ''2024-06-01'') (seat_names 5)
     = computeAvailableSeats [no_seats_T100, train_T100] (S ''T100'') (S ''2024-06-01'') (seat_names 5)"
    by (rule availability_deterministic[THEN conjunct2, THEN conjunct2, THEN mp, OF h])
  with h show ?thesis by (rule conjI)
qed

subsection \<open>Claim C7\<close>




subsection \<open>Claim C8\<close>

text \<open>
  Claim C8. In a store with one record per primary key, cancelling with the key
  \<^verbatim>\<open>(user_email, booking_date)\<close> of a stored record removes exactly that record: the
  other records stay as they were and in their order, the taken set of any item and date
  loses at most the seats of the removed record, and the availability of an item and date
  that the removed record does not match is unchanged. Every world the handlers reach
  from the empty store has one record per primary key (lemma \<open>reachable_store\<close>).
\<close>

theorem cancel_removes_exactly_one:
  assumes "email (session w) = Some user"
      and "form ''booking_id'' = Some booking_id" and "booking_id \<noteq> []"
      and "form ''booking_date'' = Some booking_date" and "booking_date \<noteq> []"
      and "rec \<in> set (store w)"
      and "primary_key rec = (Some (S user), Some (S booking_date))"
      and "distinct (map primary_key (store w))"
  shows "fst (cancel_booking form w) = Inr ()
       \<and> store (snd (cancel_booking form w)) = [b \<leftarrow> store w. b \<noteq> rec]
       \<and> length (store (snd (cancel_booking form w))) + 1 = length (store w)
       \<and> (\<forall>i t. spec_taken (store w) i t
              = spec_taken (store (snd (cancel_booking form w))) i t
                \<union> (if matches i t rec then seats_of rec else {}))
       \<and> (\<forall>i t u. \<not> matches i t rec \<longrightarrow>
              computeAvailableSeats (store (snd (cancel_booking form w))) (S i) (S t) u
                = computeAvailableSeats (store w) (S i) (S t) u)
       \<and> (\<forall>i t u available. computeAvailableSeats (store w) (S i) (S t) u = Inr available \<longrightarrow>
              (\<exists>available'.
                 computeAvailableSeats (store (snd (cancel_booking form w))) (S i) (S t) u
                   = Inr available'
               \<and> set available \<subseteq> set available'
               \<and> set available' \<subseteq> set available \<union> seats_of rec))"
proof -
  have ok: "fst (cancel_booking form w) = Inr ()"
    using assms(1-5) by (simp add: cancel_booking_def)
  have "store (snd (cancel_booking form w)) = delete_item user booking_date (store w)"
    using assms(1-5) by (simp add: cancel_booking_def)
  then have st: "store (snd (cancel_booking form w)) = [b \<leftarrow> store w. b \<noteq> rec]"
    using delete_item_distinct[OF assms(6,7,8)] by simp
  have dist: "distinct (store w)"
    using assms(8) by (simp add: distinct_map)
  show ?thesis
    unfolding st
    using ok length_remove_distinct[OF dist assms(6)] spec_taken_remove[OF assms(6)]
      computeAvailableSeats_remove_other[of _ _ rec "store w"]
      computeAvailableSeats_remove[of "store w" _ _ _ _ rec]
    by (intro conjI allI impI) auto
qed

text \<open>Claim C8 on a store with two bookings of train T100, one of them cancelled.\<close>

theorem cancel_removes_exactly_one_witness:
  "alice_T100 \<in> set (store cancel_world)
   \<and> distinct (map primary_key (store cancel_world))
   \<and> fst (cancel_booking cancel_form cancel_world) = Inr ()
   \<and> store (snd (cancel_booking cancel_form cancel_world)) = [train_T100]
   \<and> spec_taken (store cancel_world) ''T100'' ''2024-06-01''
       = spec_taken (store (snd (cancel_booking cancel_form cancel_world))) ''T100'' ''2024-06-01''
         \<union> seats_of alice_T100
   \<and> computeAvailableSeats (store cancel_world) (S ''T100'') (S ''2024-06-01'') (seat_names 5)
       = Inr [''S4'', ''S5'']
   \<and> computeAvailableSeats (store (snd (cancel_booking cancel_form cancel_world)))
         (S ''T100'') (S ''2024-06-01'') (seat_names 5) = Inr [''S3'', ''S4'', ''S5'']
   \<and> seats_of alice_T100 = {''S3''}
   \<and> computeAvailableSeats (store (snd (cancel_booking cancel_form cancel_world)))
         (S ''B7'') (S ''2024-06-01'') (seat_names 5)
       = computeAvailableSeats (store cancel_world) (S ''B7'') (S ''2024-06-01'') (seat_names 5)"
proof -
  have a: "email (session cancel_world) = Some ''alice@example.com''"
    by (simp add: cancel_world_def alice_def)
  have b: "cancel_form ''booking_id'' = Some ''id-9''" "''id-9'' \<noteq> []"
    "cancel_form ''booking_date'' = Some ''2024-05-21T10:30:00.000000''"
    "''2024-05-21T10:30:00.000000'' \<noteq> []"
    by (simp_all add: cancel_form_def)
  have c: "alice_T100 \<in> set (store cancel_world)"
    by (simp add: cancel_world_def)
  have d: "primary_key alice_T100 = (Some (S ''alice@example.com''), Some (S ''2024-05-21T10:30:00.000000''))"
    by (simp add: primary_key_def alice_T100_def)
  have f: "distinct (map primary_key (store cancel_world))"
    by (simp add: cancel_world_def primary_key_def alice_T100_def train_T100_def)
  have m: "matches ''T100'' ''2024-06-01'' alice_T100"
    by (simp add: matches_def alice_T100_def)
  note inst = cancel_removes_exactly_one[OF a b c d f]
  have "store (snd (cancel_booking cancel_form cancel_world)) = [b \<leftarrow> store cancel_world. b \<noteq> alice_T100]"
    using inst by blast
  then have st: "store (snd (cancel_booking cancel_form cancel_world)) = [train_T100]"
    using train_T100_neq_alice_T100 by (simp add: cancel_world_def)
  have "spec_taken (store cancel_world) ''T100'' ''2024-06-01''
       = spec_taken (store (snd (cancel_booking cancel_form cancel_world))) ''T100'' ''2024-06-01''
         \<union> (if matches ''T100'' ''2024-06-01'' alice_T100 then seats_of alice_T100 else {})"
    using inst by blast
  then have tk: "spec_taken (store cancel_world) ''T100'' ''2024-06-01''
       = spec_taken (store (snd (cancel_booking cancel_form cancel_world))) ''T100'' ''2024-06-01''
         \<union> seats_of alice_T100"
    using m by simp
  have ok: "fst (cancel_booking cancel_form cancel_world) = Inr ()"
    using inst by blast
  have before: "computeAvailableSeats (store cancel_world) (S ''T100'') (S ''2024-06-01'')
      (seat_names 5) = Inr [''S4'', ''S5'']"
    unfolding cancel_world_def world.simps by code_simp
  have "\<exists>available'.
      computeAvailableSeats (store (snd (cancel_booking cancel_form cancel_world)))
        (S ''T100'') (S ''2024-06-01'') (seat_names 5) = Inr available'
      \<and> set [''S4'', ''S5''] \<subseteq> set available'
      \<and> set available' \<subseteq> set [''S4'', ''S5''] \<union> seats_of alice_T100"
    using inst before by blast
  then have after: "computeAvailableSeats (store (snd (cancel_booking cancel_form cancel_world)))
      (S ''T100'') (S ''2024-06-01'') (seat_names 5) = Inr [''S3'', ''S4'', ''S5'']"
    using three_seats_left by (simp add: st)
  have s3: "seats_of alice_T100 = {''S3''}"
    by (simp add: seats_of_def alice_T100_def split_seats_def)
  have nm: "\<not> matches ''B7'' ''2024-06-01'' alice_T100"
    by (simp add: matches_def alice_T100_def)
  have other: "computeAvailableSeats (store (snd (cancel_booking cancel_form cancel_world)))
         (S ''B7'') (S ''2024-06-01'') (seat_names 5)
       = computeAvailableSeats (store cancel_world) (S ''B7'') (S ''2024-06-01'') (seat_names 5)"
    using inst nm by blast
  show ?thesis using c f ok st tk before after s3 other by (intro conjI)
qed

subsection \<open>Claim C9\<close>

text \<open>
  Claim C9, as stated, fails: \<^verbatim>\<open>put_item\<close> replaces the item that has the primary key
  \<^verbatim>\<open>(user_email, booking_date)\<close> of the new one, and \<^verbatim>\<open>booking_date\<close> is the clock's
  reading. When a user's commit is stamped with the \<^verbatim>\<open>booking_date\<close> of one of the same
  user's persisted records, that record is gone after the commit.
\<close>

theorem commit_replaces_same_key:
  "alice_T100 \<in> set (store clash_world)
   \<and> fst (final_confirm_bus_booking demo_lib demo_env seats_S5 clash_world) = Inr ()
   \<and> alice_T100 \<notin> set (store (snd (final_confirm_bus_booking demo_lib demo_env seats_S5 clash_world)))"
proof -
  let ?rec = "(bus_booking_details bus_args ''alice@example.com'' (Decimal 150 0) 1)
          (''seats_display'' \<mapsto> S ''S5'', ''booking_id'' \<mapsto> S ''id-2'',
           ''booking_date'' \<mapsto> S ''2024-05-21T10:30:00.000000'')"
  have "alice_T100 ''item_id'' \<noteq> ?rec ''item_id''"
    by (simp add: alice_T100_def bus_booking_details_def arg_get_def bus_args_def)
  then have "alice_T100 \<noteq> ?rec" by metis
  then have "alice_T100 \<notin> set (store (snd (final_confirm_bus_booking demo_lib demo_env seats_S5 clash_world)))"
    by (simp add: clash_store)
  moreover have "alice_T100 \<in> set (store clash_world)"
    by (simp add: clash_world_def)
  ultimately show ?thesis using clash_succeeds by (intro conjI)
qed

text \<open>
  Claim C9, amended. For every commit (train, bus, flight or hotel finalize), every record
  persisted before it is still present and unmodified after it, unless its primary key
  \<^verbatim>\<open>(user_email, booking_date)\<close> is the key of the record this request commits, in
  which case the committed record has taken its place.
\<close>

theorem commit_keeps_or_replaces_by_key:
  "kept_or_replaced e (store w) (store (snd (final_confirm_train_booking lib e w)))
   \<and> kept_or_replaced e (store w) (store (snd (final_confirm_bus_booking lib e form w)))
   \<and> kept_or_replaced e (store w) (store (snd (confirm_flight_booking lib e w)))
   \<and> kept_or_replaced e (store w) (store (snd (confirm_hotel_booking lib e w)))"
  using kept_train kept_bus kept_flight kept_hotel by (intro conjI)

text \<open>Claim C9, amended, on a store with another user's booking, which a bus commit keeps.\<close>

theorem commit_keeps_or_replaces_by_key_witness:
  "bus_B7 \<in> set (store other_world)
   \<and> fst (final_confirm_bus_booking demo_lib demo_env seats_S5 other_world) = Inr ()
   \<and> bus_B7 \<in> set (store (snd (final_confirm_bus_booking demo_lib demo_env seats_S5 other_world)))"
proof -
  have a: "bus_B7 \<in> set (store other_world)"
    by (simp add: other_world_def)
  have ok: "fst (final_confirm_bus_booking demo_lib demo_env seats_S5 other_world) = Inr ()"
    by (simp add: other_world_def bus_world_eq final_confirm_bus_booking_def alice_def seats_S5_def
      bus_booking_details_def check_bus_seats_def arg_get_def bus_args_def query_booked_seats_def
      query_item_date_def matches_def bus_B7_def split_seats_def commit_booking_def put_item_def
      take_pending_def is_str_def absent_or_str_def bus_message_def)
  have date: "bus_B7 ''booking_date'' \<noteq> Some (S (now demo_env))"
    by (simp add: bus_B7_def demo_env_def)
  have "kept_or_replaced demo_env (store other_world)
          (store (snd (final_confirm_bus_booking demo_lib demo_env seats_S5 other_world)))"
    using commit_keeps_or_replaces_by_key[of demo_env other_world demo_lib seats_S5] by (elim conjE)
  then have "bus_B7 \<in> set (store (snd (final_confirm_bus_booking demo_lib demo_env seats_S5 other_world)))
     \<or> (\<exists>r\<in>set (store (snd (final_confirm_bus_booking demo_lib demo_env seats_S5 other_world))).
           primary_key r = primary_key bus_B7 \<and> r ''booking_date'' = Some (S (now demo_env))
           \<and> r ''booking_id'' = Some (S (uuid4 demo_env)))"
    using a unfolding kept_or_replaced_def by (rule bspec)
  moreover have "r ''booking_date'' \<noteq> Some (S (now demo_env))" if "primary_key r = primary_key bus_B7" for r
    using that date by (simp add: primary_key_def)
  ultimately have "bus_B7 \<in> set (store (snd (final_confirm_bus_booking demo_lib demo_env seats_S5 other_world)))"
    by blast
  with a ok show ?thesis by (intro conjI)
qed

subsection \<open>Claim C10\<close>

text \<open>
  Claim C10, as stated, fails in its conclusion: a flight commit stamped with the
  \<^verbatim>\<open>booking_date\<close> of a train record of the same user replaces that record, and the
  seat it held is available again.
\<close>

theorem flight_commit_changes_availability:
  "fst (confirm_flight_details demo_lib flight_args empty_world) = Inr ()
   \<and> fst (confirm_flight_booking demo_lib demo_env (flight_world [alice_T100])) = Inr ()
   \<and> computeAvailableSeats (store (flight_world [alice_T100])) (S ''T100'') (S ''2024-06-01'')
        (seat_names 5) = Inr [''S1'', ''S2'', ''S4'', ''S5'']
   \<and> computeAvailableSeats
        (store (snd (confirm_flight_booking demo_lib demo_env (flight_world [alice_T100]))))
        (S ''T100'') (S ''2024-06-01'') (seat_names 5)
       = Inr [''S1'', ''S2'', ''S3'', ''S4'', ''S5'']"
proof -
  have u: "seat_names 5 = [''S1'', ''S2'', ''S3'', ''S4'', ''S5'']"
    by code_simp
  have before: "computeAvailableSeats (store (flight_world [alice_T100])) (S ''T100'')
        (S ''2024-06-01'') (seat_names 5) = Inr [''S1'', ''S2'', ''S4'', ''S5'']"
    using four_seats_before by (simp add: flight_world_eq)
  have "store (snd (confirm_flight_booking demo_lib demo_env (flight_world [alice_T100])))
     = [flight_draft
             (''booking_type'' \<mapsto> S ''flight'', ''user_email'' \<mapsto> S ''alice@example.com'',
              ''booking_date'' \<mapsto> S ''2024-05-21T10:30:00.000000'', ''booking_id'' \<mapsto> S ''id-2'',
              ''price_per_person'' \<mapsto> D (Decimal 45000 (- 1)),
              ''total_price'' \<mapsto> D (Decimal 90000 (- 1)))]"
    by (simp add: flight_finalize_store primary_key_def alice_T100_def)
  then have after: "computeAvailableSeats
        (store (snd (confirm_flight_booking demo_lib demo_env (flight_world [alice_T100]))))
        (S ''T100'') (S ''2024-06-01'') (seat_names 5)
       = Inr [''S1'', ''S2'', ''S3'', ''S4'', ''S5'']"
    by (simp add: computeAvailableSeats_def query_booked_seats_def query_item_date_def
        matches_def flight_draft_def u)
  show ?thesis
    using flight_details_ok flight_finalize_ok[of "[alice_T100]"] before after
    by (intro conjI) simp_all
qed

text \<open>
  Claim C10, amended. For every successful flight or hotel finalize whose draft was made
  by \<^verbatim>\<open>confirm_flight_details\<close> or \<^verbatim>\<open>confirm_hotel_details\<close>, the committed record
  carries no \<^verbatim>\<open>item_id\<close> and no \<^verbatim>\<open>seats_display\<close> (a flight record carries
  \<^verbatim>\<open>flight_id\<close>, a hotel record carries no \<^verbatim>\<open>travel_date\<close> either) and matches no
  item and date; where no persisted record has its primary key, the commit leaves the
  result of \<open>computeAvailableSeats\<close> unchanged for every item, date and universe.
\<close>

theorem flight_hotel_records_unindexed:
  "(fst (confirm_flight_details lib args w0) = Inr ()
    \<and> pending_flight_booking (session w)
        = pending_flight_booking (session (snd (confirm_flight_details lib args w0)))
    \<and> fst (confirm_flight_booking lib e w) = Inr ()
    \<longrightarrow> (\<exists>user rec msg f.
           email (session w) = Some user
         \<and> primary_key rec = (Some (S user), Some (S (now e)))
         \<and> events (snd (confirm_flight_booking lib e w))
             = events w @ [PutItem rec, Publish ''Flight Booking Confirmed'' msg]
         \<and> store (snd (confirm_flight_booking lib e w))
             = filter (\<lambda>b. primary_key b \<noteq> primary_key rec) (store w) @ [rec]
         \<and> rec ''item_id'' = None \<and> rec ''seats_display'' = None
         \<and> args ''flight_id'' = Some f \<and> rec ''flight_id'' = Some (S f)
         \<and> (\<forall>i t. \<not> matches i t rec)
         \<and> ((\<forall>b\<in>set (store w). primary_key b \<noteq> primary_key rec) \<longrightarrow>
              (\<forall>iid d u. computeAvailableSeats (store (snd (confirm_flight_booking lib e w))) iid d u
                           = computeAvailableSeats (store w) iid d u))))
   \<and> (fst (confirm_hotel_details lib args w0) = Inr ()
    \<and> pending_hotel_booking (session w)
        = pending_hotel_booking (session (snd (confirm_hotel_details lib args w0)))
    \<and> fst (confirm_hotel_booking lib e w) = Inr ()
    \<longrightarrow> (\<exists>user rec msg.
           email (session w) = Some user
         \<and> primary_key rec = (Some (S user), Some (S (now e)))
         \<and> events (snd (confirm_hotel_booking lib e w))
             = events w @ [PutItem rec, Publish ''Hotel Booking Confirmed'' msg]
         \<and> store (snd (confirm_hotel_booking lib e w))
             = filter (\<lambda>b. primary_key b \<noteq> primary_key rec) (store w) @ [rec]
         \<and> rec ''item_id'' = None \<and> rec ''travel_date'' = None \<and> rec ''seats_display'' = None
         \<and> (\<forall>i t. \<not> matches i t rec)
         \<and> ((\<forall>b\<in>set (store w). primary_key b \<noteq> primary_key rec) \<longrightarrow>
              (\<forall>iid d u. computeAvailableSeats (store (snd (confirm_hotel_booking lib e w))) iid d u
                           = computeAvailableSeats (store w) iid d u))))"
proof (intro conjI impI)
  assume h: "fst (confirm_flight_details lib args w0) = Inr ()
    \<and> pending_flight_booking (session w)
        = pending_flight_booking (session (snd (confirm_flight_details lib args w0)))
    \<and> fst (confirm_flight_booking lib e w) = Inr ()"
  from confirm_flight_details_success[of lib args w0] h obtain booking where
    details: "flight_booking_details lib args = Inr booking"
    and pending: "pending_flight_booking (session w) = Some booking"
    by auto
  from confirm_flight_booking_success[of lib e w] h pending obtain user rec where
    user: "email (session w) = Some user"
    and built: "flight_record lib e user booking = Inr rec"
    and commit: "fst (commit_booking rec ''Flight Booking Confirmed'' (flight_message lib rec)
                  (w\<lparr>session := (session w)\<lparr>pending_flight_booking := None\<rparr>\<rparr>)) = Inr ()"
    and final: "snd (confirm_flight_booking lib e w)
             = snd (commit_booking rec ''Flight Booking Confirmed'' (flight_message lib rec)
                     (w\<lparr>session := (session w)\<lparr>pending_flight_booking := None\<rparr>\<rparr>))"
    by auto
  from flight_booking_details_keys[OF details] obtain f where
    keys: "booking ''item_id'' = None" "booking ''seats_display'' = None"
      "args ''flight_id'' = Some f" "booking ''flight_id'' = Some (S f)"
    by blast
  from flight_record_Inr[OF built] keys have
    rk: "rec ''item_id'' = None" "rec ''seats_display'' = None" "rec ''flight_id'' = Some (S f)"
    and pk: "primary_key rec = (Some (S user), Some (S (now e)))"
    by (auto simp add: primary_key_def)
  from commit_booking_success[OF commit] final obtain msg where
    ev: "events (snd (confirm_flight_booking lib e w))
             = events w @ [PutItem rec, Publish ''Flight Booking Confirmed'' msg]"
    and st: "store (snd (confirm_flight_booking lib e w))
             = filter (\<lambda>b. primary_key b \<noteq> primary_key rec) (store w) @ [rec]"
    by auto
  have nomatch: "\<forall>i t. \<not> matches i t rec"
    using rk(1) by (simp add: matches_def)
  have same: "\<forall>iid d u. computeAvailableSeats (store (snd (confirm_flight_booking lib e w))) iid d u
                           = computeAvailableSeats (store w) iid d u"
    if "\<forall>b\<in>set (store w). primary_key b \<noteq> primary_key rec"
    unfolding st using computeAvailableSeats_fresh_unindexed[OF that rk(2)] by blast
  show "\<exists>user rec msg f.
           email (session w) = Some user
         \<and> primary_key rec = (Some (S user), Some (S (now e)))
         \<and> events (snd (confirm_flight_booking lib e w))
             = events w @ [PutItem rec, Publish ''Flight Booking Confirmed'' msg]
         \<and> store (snd (confirm_flight_booking lib e w))
             = filter (\<lambda>b. primary_key b \<noteq> primary_key rec) (store w) @ [rec]
         \<and> rec ''item_id'' = None \<and> rec ''seats_display'' = None
         \<and> args ''flight_id'' = Some f \<and> rec ''flight_id'' = Some (S f)
         \<and> (\<forall>i t. \<not> matches i t rec)
         \<and> ((\<forall>b\<in>set (store w). primary_key b \<noteq> primary_key rec) \<longrightarrow>
              (\<forall>iid d u. computeAvailableSeats (store (snd (confirm_flight_booking lib e w))) iid d u
                           = computeAvailableSeats (store w) iid d u))"
    using user pk ev st rk keys(3) nomatch same by blast
next
  assume h: "fst (confirm_hotel_details lib args w0) = Inr ()
    \<and> pending_hotel_booking (session w)
        = pending_hotel_booking (session (snd (confirm_hotel_details lib args w0)))
    \<and> fst (confirm_hotel_booking lib e w) = Inr ()"
  from confirm_hotel_details_success[of lib args w0] h obtain booking where
    details: "hotel_booking_details lib args = Inr booking"
    and pending: "pending_hotel_booking (session w) = Some booking"
    by auto
  from confirm_hotel_booking_success[of lib e w] h pending obtain user rec where
    user: "email (session w) = Some user"
    and built: "hotel_record lib e user booking = Inr rec"
    and commit: "fst (commit_booking rec ''Hotel Booking Confirmed'' (hotel_message lib rec)
                  (w\<lparr>session := (session w)\<lparr>pending_hotel_booking := None\<rparr>\<rparr>)) = Inr ()"
    and final: "snd (confirm_hotel_booking lib e w)
             = snd (commit_booking rec ''Hotel Booking Confirmed'' (hotel_message lib rec)
                     (w\<lparr>session := (session w)\<lparr>pending_hotel_booking := None\<rparr>\<rparr>))"
    by auto
  from hotel_booking_details_keys[OF details] have
    keys: "booking ''item_id'' = None" "booking ''travel_date'' = None"
      "booking ''seats_display'' = None"
    by blast+
  from hotel_record_Inr[OF built] keys have
    rk: "rec ''item_id'' = None" "rec ''travel_date'' = None" "rec ''seats_display'' = None"
    and pk: "primary_key rec = (Some (S user), Some (S (now e)))"
    by (auto simp add: primary_key_def)
  from commit_booking_success[OF commit] final obtain msg where
    ev: "events (snd (confirm_hotel_booking lib e w))
             = events w @ [PutItem rec, Publish ''Hotel Booking Confirmed'' msg]"
    and st: "store (snd (confirm_hotel_booking lib e w))
             = filter (\<lambda>b. primary_key b \<noteq> primary_key rec) (store w) @ [rec]"
    by auto
  have nomatch: "\<forall>i t. \<not> matches i t rec"
    using rk(1) by (simp add: matches_def)
  have same: "\<forall>iid d u. computeAvailableSeats (store (snd (confirm_hotel_booking lib e w))) iid d u
                           = computeAvailableSeats (store w) iid d u"
    if "\<forall>b\<in>set (store w). primary_key b \<noteq> primary_key rec"
    unfolding st using computeAvailableSeats_fresh_unindexed[OF that rk(3)] by blast
  show "\<exists>user rec msg.
           email (session w) = Some user
         \<and> primary_key rec = (Some (S user), Some (S (now e)))
         \<and> events (snd (confirm_hotel_booking lib e w))
             = events w @ [PutItem rec, Publish ''Hotel Booking Confirmed'' msg]
         \<and> store (snd (confirm_hotel_booking lib e w))
             = filter (\<lambda>b. primary_key b \<noteq> primary_key rec) (store w) @ [rec]
         \<and> rec ''item_id'' = None \<and> rec ''travel_date'' = None \<and> rec ''seats_display'' = None
         \<and> (\<forall>i t. \<not> matches i t rec)
         \<and> ((\<forall>b\<in>set (store w). primary_key b \<noteq> primary_key rec) \<longrightarrow>
              (\<forall>iid d u. computeAvailableSeats (store (snd (confirm_hotel_booking lib e w))) iid d u
                           = computeAvailableSeats (store w) iid d u))"
    using user pk ev st rk nomatch same by blast
qed

text \<open>Claim C10, amended, on a store with another user's train booking.\<close>

theorem flight_hotel_records_unindexed_witness:
  "fst (confirm_flight_details demo_lib flight_args empty_world) = Inr ()
   \<and> fst (confirm_flight_booking demo_lib demo_env (flight_world [train_T100])) = Inr ()
   \<and> computeAvailableSeats
        (store (snd (confirm_flight_booking demo_lib demo_env (flight_world [train_T100]))))
        (S ''T100'') (S ''2024-06-01'') (seat_names 5) = Inr [''S3'', ''S4'', ''S5'']
   \<and> fst (confirm_hotel_details demo_lib hotel_args empty_world) = Inr ()
   \<and> fst (confirm_hotel_booking demo_lib demo_env (hotel_world [train_T100])) = Inr ()
   \<and> computeAvailableSeats
        (store (snd (confirm_hotel_booking demo_lib demo_env (hotel_world [train_T100]))))
        (S ''T100'') (S ''2024-06-01'') (seat_names 5) = Inr [''S3'', ''S4'', ''S5'']"
proof -
  let ?fw = "flight_world [train_T100]" and ?hw = "hotel_world [train_T100]"
  have fh: "fst (confirm_flight_details demo_lib flight_args empty_world) = Inr ()
    \<and> pending_flight_booking (session ?fw)
        = pending_flight_booking (session (snd (confirm_flight_details demo_lib flight_args empty_world)))
    \<and> fst (confirm_flight_booking demo_lib demo_env ?fw) = Inr ()"
    using flight_details_ok flight_finalize_ok[of "[train_T100]"]
    by (simp add: flight_world_def)
  have hh: "fst (confirm_hotel_details demo_lib hotel_args empty_world) = Inr ()
    \<and> pending_hotel_booking (session ?hw)
        = pending_hotel_booking (session (snd (confirm_hotel_details demo_lib hotel_args empty_world)))
    \<and> fst (confirm_hotel_booking demo_lib demo_env ?hw) = Inr ()"
    using hotel_details_ok hotel_finalize_ok[of "[train_T100]"]
    by (simp add: hotel_world_def)
  from flight_hotel_records_unindexed[where lib = demo_lib and args = flight_args and ?w0.0 = empty_world
      and w = ?fw and e = demo_env, THEN conjunct1, THEN mp, OF fh]
  obtain user rec where
    fu: "email (session ?fw) = Some user"
    and fk: "primary_key rec = (Some (S user), Some (S (now demo_env)))"
    and fs: "(\<forall>b\<in>set (store ?fw). primary_key b \<noteq> primary_key rec) \<longrightarrow>
              (\<forall>iid d u. computeAvailableSeats (store (snd (confirm_flight_booking demo_lib demo_env ?fw))) iid d u
                           = computeAvailableSeats (store ?fw) iid d u)"
    by blast
  have "user = ''alice@example.com''"
    using fu by (simp add: flight_world_eq alice_def)
  then have "\<forall>b\<in>set (store ?fw). primary_key b \<noteq> primary_key rec"
    using fk bob_key_differs by (simp add: flight_world_eq)
  with fs have "computeAvailableSeats (store (snd (confirm_flight_booking demo_lib demo_env ?fw)))
      (S ''T100'') (S ''2024-06-01'') (seat_names 5)
        = computeAvailableSeats (store ?fw) (S ''T100'') (S ''2024-06-01'') (seat_names 5)"
    by blast
  then have f3: "computeAvailableSeats (store (snd (confirm_flight_booking demo_lib demo_env ?fw)))
      (S ''T100'') (S ''2024-06-01'') (seat_names 5) = Inr [''S3'', ''S4'', ''S5'']"
    using three_seats_left by (simp add: flight_world_eq)
  from flight_hotel_records_unindexed[where lib = demo_lib and args = hotel_args and ?w0.0 = empty_world
      and w = ?hw and e = demo_env, THEN conjunct2, THEN mp, OF hh]
  obtain user' rec' where
    hu: "email (session ?hw) = Some user'"
    and hk: "primary_key rec' = (Some (S user'), Some (S (now demo_env)))"
    and hs: "(\<forall>b\<in>set (store ?hw). primary_key b \<noteq> primary_key rec') \<longrightarrow>
              (\<forall>iid d u. computeAvailableSeats (store (snd (confirm_hotel_booking demo_lib demo_env ?hw))) iid d u
                           = computeAvailableSeats (store ?hw) iid d u)"
    by blast
  have "user' = ''alice@example.com''"
    using hu by (simp add: hotel_world_eq alice_def)
  then have "\<forall>b\<in>set (store ?hw). primary_key b \<noteq> primary_key rec'"
    using hk bob_key_differs by (simp add: hotel_world_eq)
  with hs have "computeAvailableSeats (store (snd (confirm_hotel_booking demo_lib demo_env ?hw)))
      (S ''T100'') (S ''2024-06-01'') (seat_names 5)
        = computeAvailableSeats (store ?hw) (S ''T100'') (S ''2024-06-01'') (seat_names 5)"
    by blast
  then have h3: "computeAvailableSeats (store (snd (confirm_hotel_booking demo_lib demo_env ?hw)))
      (S ''T100'') (S ''2024-06-01'') (seat_names 5) = Inr [''S3'', ''S4'', ''S5'']"
    using three_seats_left by (simp add: hotel_world_eq)
  show ?thesis using fh hh f3 h3 by (intro conjI) simp_all
qed

end
